theory Spec2Isabelle
  imports Main "HOL-Library.Sublist"
begin

section \<open>A project-scaffolding command-line tool\<close>

text \<open>
  The source holds four texts of the tool: the flag-based variant (catalog
  \<open>templeUrls\<close>, option \<open>--template\<close>) as the compiled file \<open>src/lib/index.js\<close> and
  as TypeScript, and the interactive variant (catalog \<open>templateUrls\<close>, prompts \<open>qa\<close>),
  compiled and as TypeScript. \<open>checkAppName\<close> and \<open>install\<close> are the same in all four.
  \<open>creatApp\<close> is the same but for one word: the history reset begins with \<open>rm -rf\<close> in
  three of the texts and with \<open>rimraf\<close> in the TypeScript text of the flag-based variant.

  The program is glue around external collaborators: the console, the file system
  (\<open>fs-extra\<close>), the shell (\<open>exec\<close>), a spawned installer, a name validator and two
  prompts. The embedding makes each of them explicit: what the outside world answers is a
  field of the environment \<open>env\<close>, what the program does to the outside world is an entry
  of the trace of the \<open>world\<close>, and the directory tree it works on is the \<open>fs\<close> of the
  \<open>world\<close>. \<open>chalk\<close> only colours text and is the identity here.
\<close>

subsection \<open>JavaScript values\<close>

text \<open>
  A value that is a string, \<open>undefined\<close>, or a member that an object literal inherits
  from \<open>Object.prototype\<close> (named by its property name). A string is the list of the
  bytes of its UTF-8 encoding.
\<close>

datatype jsval = Undefined | Str string | Inherited string

text \<open>A rejected promise or a thrown exception: an error of the operating system or of
  a tool (with its code or message), or the object \<open>{command: ...}\<close> that \<open>install\<close>
  rejects with.\<close>

datatype js_error = SysError string | CommandFailure string

text \<open>How a function of the program ends: it returns (its promise resolves), it throws
  (its promise rejects), the process is terminated by \<open>process.exit\<close>, or an error that
  nothing handles ends the process while the promise is still pending.\<close>

datatype 'a outcome = Returned 'a | Threw js_error | Exited int | Crashed js_error

definition dquote :: string where
  "dquote = [CHR 0x22]"

definition newline :: string where
  "newline = [CHR 0x0A]"

text \<open>The text a template literal \<open>`${v}`\<close> puts for \<open>v\<close>.\<close>

fun template_text :: "jsval \<Rightarrow> string" where
  "template_text Undefined = ''undefined''"
| "template_text (Str s) = s"
| "template_text (Inherited k) =
     (if k = ''__proto__'' then ''[object Object]''
      else ''function '' @ (if k = ''constructor'' then ''Object'' else k) @ ''() { [native code] }'')"

text \<open>\<open>args.join(' ')\<close>\<close>

fun join :: "string \<Rightarrow> string list \<Rightarrow> string" where
  "join sep [] = []"
| "join sep [x] = x"
| "join sep (x # y # ys) = x @ sep @ join sep (y # ys)"

text \<open>\<open>s.includes(sub)\<close>\<close>

definition str_includes :: "string \<Rightarrow> string \<Rightarrow> bool" where
  "str_includes s sub = list_ex (prefix sub) (suffixes s)"

text \<open>
  \<open>s.trim()\<close> removes the white space and the line terminators at both ends: the code
  points U+0009 to U+000D, U+0020, U+00A0, U+1680, U+2000 to U+200A, U+2028, U+2029, U+202F,
  U+205F, U+3000 and U+FEFF, listed here by their encodings.
\<close>

definition white_space :: "string list" where
  "white_space =
     [[CHR 0x09], [CHR 0x0A], [CHR 0x0B], [CHR 0x0C], [CHR 0x0D], [CHR 0x20],
      [CHR 0xC2, CHR 0xA0], [CHR 0xE1, CHR 0x9A, CHR 0x80],
      [CHR 0xE2, CHR 0x80, CHR 0x80], [CHR 0xE2, CHR 0x80, CHR 0x81],
      [CHR 0xE2, CHR 0x80, CHR 0x82], [CHR 0xE2, CHR 0x80, CHR 0x83],
      [CHR 0xE2, CHR 0x80, CHR 0x84], [CHR 0xE2, CHR 0x80, CHR 0x85],
      [CHR 0xE2, CHR 0x80, CHR 0x86], [CHR 0xE2, CHR 0x80, CHR 0x87],
      [CHR 0xE2, CHR 0x80, CHR 0x88], [CHR 0xE2, CHR 0x80, CHR 0x89],
      [CHR 0xE2, CHR 0x80, CHR 0x8A], [CHR 0xE2, CHR 0x80, CHR 0xA8],
      [CHR 0xE2, CHR 0x80, CHR 0xA9], [CHR 0xE2, CHR 0x80, CHR 0xAF],
      [CHR 0xE2, CHR 0x81, CHR 0x9F], [CHR 0xE3, CHR 0x80, CHR 0x80],
      [CHR 0xEF, CHR 0xBB, CHR 0xBF]]"

text \<open>Removing, as long as there is one, a leading occurrence of one of the given
  sequences.\<close>

function strip_leading :: "string list \<Rightarrow> string \<Rightarrow> string" where
  "strip_leading ps s =
     (case List.find (\<lambda>p. p \<noteq> [] \<and> prefix p s) ps of
        None \<Rightarrow> s
      | Some p \<Rightarrow> strip_leading ps (drop (length p) s))"
  by pat_completeness auto

termination
  by (relation "measure (\<lambda>(ps, s). length s)") (auto simp: find_Some_iff prefix_def)

declare strip_leading.simps [simp del]

definition trim :: "string \<Rightarrow> string" where
  "trim s = rev (strip_leading (map rev white_space) (rev (strip_leading white_space s)))"

subsection \<open>Property access on an object literal\<close>

text \<open>
  \<open>obj[key]\<close> on an object written as a literal \<open>{...}\<close> finds the object's own
  properties first and then those of \<open>Object.prototype\<close>; every other key gives
  \<open>undefined\<close>.
\<close>

definition object_prototype_keys :: "string list" where
  "object_prototype_keys =
     [''constructor'', ''__defineGetter__'', ''__defineSetter__'', ''hasOwnProperty'',
      ''__lookupGetter__'', ''__lookupSetter__'', ''isPrototypeOf'', ''propertyIsEnumerable'',
      ''toString'', ''valueOf'', ''__proto__'', ''toLocaleString'']"

definition js_lookup :: "(string \<times> string) list \<Rightarrow> string \<Rightarrow> jsval" where
  "js_lookup obj key =
     (case map_of obj key of
        Some v \<Rightarrow> Str v
      | None \<Rightarrow> if key \<in> set object_prototype_keys then Inherited key else Undefined)"

text \<open>The catalog of the flag-based variant (\<open>src/lib/index.js\<close>).\<close>

definition templeUrls :: "(string \<times> string) list" where
  "templeUrls = [(''react-starter'', ''https://github.com/webpack/react-starter.git'')]"

text \<open>The catalog of the interactive variant.\<close>

definition templateUrls :: "(string \<times> string) list" where
  "templateUrls =
     [(''react-starter'', ''https://github.com/webpack/react-starter.git''),
      (''react-material-admin-template'',
         ''https://github.com/rafaelhz/react-material-admin-template.git''),
      (''react-frame-application'', ''https://github.com/zwlzwt/react-frame-application.git'')]"

subsection \<open>Paths and the directory tree\<close>

text \<open>
  A location is the list of its segments below the root. A path string is resolved against
  the working directory lexically, as \<open>path.resolve\<close> does: empty segments and \<open>.\<close>
  are dropped, \<open>..\<close> removes the last segment.
\<close>

type_synonym path = "string list"

text \<open>
  The metadata directory \<open>.git\<close> of a repository is kept as one entry of the tree and
  reduced to what it records: the staged files (the index) and the commits of the current
  branch, the newest first, each with its message and its files. Files are named relative
  to the directory that holds \<open>.git\<close>. Ignore rules and repositories nested in the work
  tree are not part of the model.
\<close>

record repository =
  staged :: "(path \<times> string) list"
  commits :: "(string \<times> (path \<times> string) list) list"

datatype node = File string | Dir | Git repository

type_synonym filesystem = "(path \<times> node) list"

fun split_slash :: "string \<Rightarrow> string list" where
  "split_slash [] = [[]]"
| "split_slash (c # cs) =
     (if c = CHR ''/'' then [] # split_slash cs
      else (case split_slash cs of [] \<Rightarrow> [[c]] | s # ss \<Rightarrow> (c # s) # ss))"

definition norm_step :: "path \<Rightarrow> string \<Rightarrow> path" where
  "norm_step st seg =
     (if seg = [] \<or> seg = ''.'' then st else if seg = ''..'' then butlast st else st @ [seg])"

definition is_absolute :: "string \<Rightarrow> bool" where
  "is_absolute s = (case s of [] \<Rightarrow> False | c # _ \<Rightarrow> c = CHR ''/'')"

definition resolve_from :: "path \<Rightarrow> string \<Rightarrow> path" where
  "resolve_from base s = foldl norm_step (if is_absolute s then [] else base) (split_slash s)"

definition path_string :: "path \<Rightarrow> string" where
  "path_string p = (if p = [] then ''/'' else concat (map (\<lambda>s. ''/'' @ s) p))"

text \<open>\<open>path.basename\<close> of an absolute, normalised path.\<close>

definition basename :: "path \<Rightarrow> string" where
  "basename p = (if p = [] then [] else last p)"

text \<open>The root always is a directory.\<close>

definition node_at :: "filesystem \<Rightarrow> path \<Rightarrow> node option" where
  "node_at fs p = (if p = [] then Some Dir else map_of fs p)"

fun is_file :: "node option \<Rightarrow> bool" where
  "is_file (Some (File _)) = True"
| "is_file _ = False"

fun is_dir :: "node option \<Rightarrow> bool" where
  "is_dir (Some Dir) = True"
| "is_dir (Some (Git _)) = True"
| "is_dir _ = False"

text \<open>
  \<open>mkdir -p\<close>, which is what \<open>fs-extra\<close>'s \<open>ensureDirSync\<close> does: every missing
  directory on the way is created, an existing directory is left as it is, and a file in
  the way is an error.
\<close>

definition mkdirs :: "filesystem \<Rightarrow> path \<Rightarrow> js_error + filesystem" where
  "mkdirs fs p =
     (case node_at fs p of
        Some Dir \<Rightarrow> Inr fs
      | Some (Git r) \<Rightarrow> Inr fs
      | Some (File x) \<Rightarrow> Inl (SysError ''EEXIST'')
      | None \<Rightarrow>
          if list_ex (\<lambda>q. is_file (node_at fs q)) (prefixes p) then Inl (SysError ''ENOTDIR'')
          else Inr (map (\<lambda>q. (q, Dir)) (filter (\<lambda>q. node_at fs q = None) (prefixes p)) @ fs))"

text \<open>
  \<open>fs-extra\<close>'s \<open>emptyDirSync\<close>: the entries of an existing directory are removed, the
  directory itself stays (a metadata directory that is emptied is a plain directory);
  when the directory cannot be read, \<open>mkdirs\<close> is tried.
\<close>

definition emptyDir :: "filesystem \<Rightarrow> path \<Rightarrow> js_error + filesystem" where
  "emptyDir fs p =
     (case node_at fs p of
        Some Dir \<Rightarrow> Inr (filter (\<lambda>(q, n). \<not> strict_prefix p q) fs)
      | Some (Git r) \<Rightarrow> Inr ((p, Dir) # filter (\<lambda>(q, n). \<not> prefix p q) fs)
      | _ \<Rightarrow> mkdirs fs p)"

subsection \<open>The environment and the world\<close>

text \<open>What \<open>validate-npm-package-name\<close> returns; the two lists may be absent.\<close>

record validation_result =
  validForNewPackages :: bool
  errors :: "string list option"
  warnings :: "string list option"

text \<open>What a successful \<open>git clone\<close> delivers: its output, the directory it creates
  in its working directory and the entries of that directory, by relative location.\<close>

record cloned =
  c_output :: "string \<times> string"
  c_dir :: string
  c_tree :: "(path \<times> node) list"

text \<open>The word with which the history reset of \<open>creatApp\<close> begins.\<close>

datatype remover = Rm_rf | Rimraf

record env =
  cwd :: path
  package_name :: string
  process_version :: string
  node_supported :: bool
  remover :: remover
  validateProjectName :: "string \<Rightarrow> validation_result"
  shell :: "string \<Rightarrow> js_error + string \<times> string"
  git_clone :: "string \<Rightarrow> js_error + cloned"
  npm :: "js_error + int option"
  select_prompt :: "js_error + string"
  input_prompt :: "string \<Rightarrow> js_error + string"

text \<open>
  \<^item> \<open>cwd\<close> is \<open>process.cwd()\<close>, \<open>package_name\<close> is \<open>program.name()\<close>;
  \<^item> \<open>node_supported\<close> is \<open>semver.satisfies(process.version, '>=10')\<close>;
  \<^item> \<open>remover\<close> tells which text of \<open>creatApp\<close> runs: \<open>Rimraf\<close> for the TypeScript
    text of the flag-based variant, \<open>Rm_rf\<close> for the three others;
  \<^item> \<open>shell\<close> is what one command of a shell command line answers on this host, as far
    as the host decides it (is the tool installed, is it configured, can it reach what it
    needs): \<open>(stdout, stderr)\<close>, or the error \<open>exec\<close> rejects with when the command
    fails;
  \<^item> \<open>git_clone\<close> is what the clone command line obtains;
  \<^item> \<open>npm\<close> is what becomes of the installer once it is started in an existing
    directory: the error of the \<open>error\<close> event when the executable cannot be run, or the
    argument of the \<open>close\<close> event, \<open>None\<close> for \<open>null\<close> (the child was ended by a
    signal);
  \<^item> \<open>select_prompt\<close> and \<open>input_prompt\<close> (by the question's \<open>name\<close>) are the
    user's answers, or the error the prompt rejects with.
\<close>

text \<open>
  What becomes of a call of \<open>spawn\<close>: it throws, or it returns a child that emits
  \<open>error\<close> because it could not be started, or it returns a child that runs and closes.
\<close>

datatype child = Not_started js_error | Start_failed js_error | Closed "int option"

text \<open>Each call to the outside world, with its result.\<close>

datatype event =
    ConsoleLog "jsval list"
  | ConsoleError string
  | ConsoleErrorObj js_error
  | EnsureDirSync string "js_error option"
  | EmptyDirSync string "js_error option"
  | Exec string "string option" "js_error + string \<times> string"
  | Stat string "js_error + bool"
  | Spawn string "string list" string child
  | Select "js_error + string"
  | Input string "js_error + string"
  | ProcessExit "int option"

text \<open>The directory tree, and the calls made so far, each with the tree it left.\<close>

record world =
  fs :: filesystem
  trace :: "(event \<times> filesystem) list"

definition start :: "filesystem \<Rightarrow> world" where
  "start f = \<lparr>fs = f, trace = []\<rparr>"

definition events :: "world \<Rightarrow> event list" where
  "events w = map fst (trace w)"

definition record_call :: "event \<Rightarrow> filesystem \<Rightarrow> world \<Rightarrow> world" where
  "record_call e f w = \<lparr>fs = f, trace = trace w @ [(e, f)]\<rparr>"

definition emit :: "event \<Rightarrow> world \<Rightarrow> world" where
  "emit e w = record_call e (fs w) w"

definition console_log :: "jsval list \<Rightarrow> world \<Rightarrow> world" where
  "console_log vs w = emit (ConsoleLog vs) w"

definition console_error :: "string \<Rightarrow> world \<Rightarrow> world" where
  "console_error s w = emit (ConsoleError s) w"

text \<open>
  \<open>process.exit(code)\<close>; without an argument the status is \<open>process.exitCode\<close>,
  which the program never sets, so it is the default 0.
\<close>

fun exit_status :: "int option \<Rightarrow> int" where
  "exit_status None = 0"
| "exit_status (Some c) = c"

definition process_exit :: "int option \<Rightarrow> world \<Rightarrow> 'a outcome \<times> world" where
  "process_exit code w = (Exited (exit_status code), emit (ProcessExit code) w)"

text \<open>The location a path string given to the file system or as a working directory
  denotes; the empty string denotes none.\<close>

definition locate :: "env \<Rightarrow> string \<Rightarrow> path option" where
  "locate env s = (if s = [] then None else Some (resolve_from (cwd env) s))"

definition fs_call ::
  "(js_error option \<Rightarrow> event) \<Rightarrow> js_error + filesystem \<Rightarrow> world \<Rightarrow> (js_error + unit) \<times> world" where
  "fs_call ev r w =
     (case r of
        Inl e \<Rightarrow> (Inl e, emit (ev (Some e)) w)
      | Inr f \<Rightarrow> (Inr (), record_call (ev None) f w))"

definition ensureDir_result :: "env \<Rightarrow> string \<Rightarrow> filesystem \<Rightarrow> js_error + filesystem" where
  "ensureDir_result env dir f =
     (case locate env dir of None \<Rightarrow> Inl (SysError ''ENOENT'') | Some p \<Rightarrow> mkdirs f p)"

definition ensureDirSync :: "env \<Rightarrow> string \<Rightarrow> world \<Rightarrow> (js_error + unit) \<times> world" where
  "ensureDirSync env dir w = fs_call (EnsureDirSync dir) (ensureDir_result env dir (fs w)) w"

definition emptyDir_result :: "env \<Rightarrow> string \<Rightarrow> filesystem \<Rightarrow> js_error + filesystem" where
  "emptyDir_result env dir f =
     (case locate env dir of None \<Rightarrow> Inl (SysError ''ENOENT'') | Some p \<Rightarrow> emptyDir f p)"

definition emptyDirSync :: "env \<Rightarrow> string \<Rightarrow> world \<Rightarrow> (js_error + unit) \<times> world" where
  "emptyDirSync env dir w = fs_call (EmptyDirSync dir) (emptyDir_result env dir (fs w)) w"

text \<open>\<open>fs.stat(p)\<close>, reduced to what the program reads: \<open>isDirectory()\<close>.\<close>

definition stat_result :: "env \<Rightarrow> string \<Rightarrow> filesystem \<Rightarrow> js_error + bool" where
  "stat_result env p f =
     (case locate env p of
        None \<Rightarrow> Inl (SysError ''ENOENT'')
      | Some q \<Rightarrow> (case node_at f q of
                     None \<Rightarrow> Inl (SysError ''ENOENT'')
                   | Some n \<Rightarrow> Inr (is_dir (Some n))))"

definition fs_stat :: "env \<Rightarrow> string \<Rightarrow> world \<Rightarrow> (js_error + bool) \<times> world" where
  "fs_stat env p w = (stat_result env p (fs w), emit (Stat p (stat_result env p (fs w))) w)"

subsection \<open>Child processes\<close>

text \<open>
  The working directory of a child process (the option \<open>cwd\<close>; without it, that of the
  program). A child cannot be started in a directory that does not exist (\<open>ENOENT\<close>) or
  where a file is in the way (\<open>ENOTDIR\<close>).
\<close>

definition working_dir :: "env \<Rightarrow> filesystem \<Rightarrow> string option \<Rightarrow> js_error + path" where
  "working_dir env f dir =
     (case dir of
        None \<Rightarrow> Inr (cwd env)
      | Some d \<Rightarrow>
          (case locate env d of
             None \<Rightarrow> Inl (SysError ''ENOENT'')
           | Some p \<Rightarrow>
               if list_ex (\<lambda>q. is_file (node_at f q)) (prefixes p) then Inl (SysError ''ENOTDIR'')
               else if is_dir (node_at f p) then Inr p
               else Inl (SysError ''ENOENT'')))"

text \<open>
  \<open>spawn(command, args, {cwd})\<close> as Node does it: an \<open>ENOENT\<close> is not thrown but
  reported later, by the \<open>error\<close> event of the child; the other errors of the start are
  thrown by \<open>spawn\<close> itself.
\<close>

definition started :: "env \<Rightarrow> child" where
  "started env = (case npm env of Inl e \<Rightarrow> Start_failed e | Inr code \<Rightarrow> Closed code)"

definition spawn_result :: "env \<Rightarrow> string \<Rightarrow> filesystem \<Rightarrow> child" where
  "spawn_result env dir f =
     (case working_dir env f (Some dir) of
        Inl e \<Rightarrow> if e = SysError ''ENOENT'' then Start_failed e else Not_started e
      | Inr p \<Rightarrow> started env)"

subsection \<open>Shell commands\<close>

text \<open>
  A clone command that succeeds creates one directory in its working directory, unless
  something other than an empty directory is in its place.
\<close>

definition is_clone_command :: "string \<Rightarrow> bool" where
  "is_clone_command command = prefix ''git clone '' command"

definition cloned_entries :: "path \<Rightarrow> cloned \<Rightarrow> filesystem" where
  "cloned_entries wd c = map (\<lambda>(r, n). (wd @ [c_dir c] @ r, n)) (([], Dir) # c_tree c)"

definition clone_into :: "filesystem \<Rightarrow> path \<Rightarrow> cloned \<Rightarrow> js_error + filesystem" where
  "clone_into f wd c =
     (if (node_at f (wd @ [c_dir c]) \<noteq> None \<and> node_at f (wd @ [c_dir c]) \<noteq> Some Dir)
         \<or> list_ex (\<lambda>(q, n). strict_prefix (wd @ [c_dir c]) q) f
      then Inl (SysError ''destination path already exists and is not an empty directory'')
      else Inr (cloned_entries wd c @ f))"

text \<open>
  Every other command line is read as the shell reads the forms the program writes:
  \<open>&&\<close> chains commands, each of which runs only if the one before it succeeded; blanks
  separate the words of a command, and double quotes keep a word together.
\<close>

definition is_blank :: "char \<Rightarrow> bool" where
  "is_blank c = (c = CHR 0x20 \<or> c = CHR 0x09 \<or> c = CHR 0x0A)"

definition strip_blanks :: "string \<Rightarrow> string" where
  "strip_blanks s = rev (dropWhile is_blank (rev (dropWhile is_blank s)))"

fun shell_steps :: "bool \<Rightarrow> string \<Rightarrow> string \<Rightarrow> string list" where
  "shell_steps quoted cur [] = [cur]"
| "shell_steps quoted cur [c] = [cur @ [c]]"
| "shell_steps quoted cur (c # d # cs) =
     (if c = CHR 0x22 then shell_steps (\<not> quoted) (cur @ [c]) (d # cs)
      else if \<not> quoted \<and> c = CHR ''&'' \<and> d = CHR ''&'' then cur # shell_steps False [] cs
      else shell_steps quoted (cur @ [c]) (d # cs))"

definition steps_of :: "string \<Rightarrow> string list" where
  "steps_of command = map strip_blanks (shell_steps False [] command)"

fun shell_words :: "bool \<Rightarrow> string \<Rightarrow> string \<Rightarrow> string list" where
  "shell_words quoted cur [] = (if cur = [] then [] else [cur])"
| "shell_words quoted cur (c # cs) =
     (if c = CHR 0x22 then shell_words (\<not> quoted) cur cs
      else if \<not> quoted \<and> is_blank c then (if cur = [] then [] else [cur]) @ shell_words quoted [] cs
      else shell_words quoted (cur @ [c]) cs)"

definition words_of :: "string \<Rightarrow> string list" where
  "words_of step = shell_words False [] step"

text \<open>Writing one entry of the tree.\<close>

definition put :: "filesystem \<Rightarrow> path \<Rightarrow> node \<Rightarrow> filesystem" where
  "put f p n = (p, n) # filter (\<lambda>(q, m). q \<noteq> p) f"

text \<open>\<open>rm -rf x\<close> and \<open>rimraf x\<close>: the entry and everything below it are gone.\<close>

definition remove_tree :: "filesystem \<Rightarrow> path \<Rightarrow> filesystem" where
  "remove_tree f t = filter (\<lambda>(q, n). \<not> prefix t q) f"

text \<open>The repository a \<open>git\<close> command works on: that of the nearest directory, from the
  working directory upwards, that holds a \<open>.git\<close>.\<close>

definition repository_at :: "filesystem \<Rightarrow> path \<Rightarrow> repository option" where
  "repository_at f d = (case node_at f (d @ [''.git'']) of Some (Git r) \<Rightarrow> Some r | _ \<Rightarrow> None)"

definition find_repository :: "filesystem \<Rightarrow> path \<Rightarrow> (path \<times> repository) option" where
  "find_repository f wd =
     (case List.find (\<lambda>d. repository_at f d \<noteq> None) (rev (prefixes wd)) of
        None \<Rightarrow> None
      | Some d \<Rightarrow> map_option (Pair d) (repository_at f d))"

text \<open>The files at and below \<open>wd\<close>, outside any metadata directory, named relative to
  \<open>root\<close>.\<close>

definition tracked :: "filesystem \<Rightarrow> path \<Rightarrow> path \<Rightarrow> (path \<times> string) list" where
  "tracked f root wd =
     List.map_filter
       (\<lambda>q. case node_at f q of
              Some (File c) \<Rightarrow>
                if prefix wd q \<and> ''.git'' \<notin> set (drop (length root) q)
                then Some (drop (length root) q, c) else None
            | _ \<Rightarrow> None)
       (remdups (map fst f))"

definition fresh_repository :: repository where
  "fresh_repository = \<lparr>staged = [], commits = []\<rparr>"

text \<open>\<open>git init\<close>: a directory without metadata gets a fresh repository; an existing
  repository is kept.\<close>

definition git_init :: "filesystem \<Rightarrow> path \<Rightarrow> js_error + filesystem" where
  "git_init f wd =
     (case node_at f (wd @ [''.git'']) of
        Some (Git r) \<Rightarrow> Inr f
      | Some (File x) \<Rightarrow> Inl (SysError ''fatal: invalid gitfile format'')
      | _ \<Rightarrow> Inr (put f (wd @ [''.git'']) (Git fresh_repository)))"

text \<open>\<open>git add .\<close>: the index takes the files at and below the working directory as they
  are now.\<close>

definition git_add :: "filesystem \<Rightarrow> path \<Rightarrow> js_error + filesystem" where
  "git_add f wd =
     (case find_repository f wd of
        None \<Rightarrow> Inl (SysError ''fatal: not a git repository'')
      | Some (d, r) \<Rightarrow>
          Inr (put f (d @ [''.git''])
                 (Git (r\<lparr>staged := tracked f d wd
                           @ filter (\<lambda>(q, c). \<not> prefix (drop (length d) wd) q) (staged r)\<rparr>))))"

text \<open>\<open>git commit -m message\<close>: one more commit, with the staged files; it fails when
  the index holds what the last commit holds.\<close>

definition head_files :: "repository \<Rightarrow> (path \<times> string) list" where
  "head_files r = (case commits r of [] \<Rightarrow> [] | (m, files) # _ \<Rightarrow> files)"

definition git_commit :: "filesystem \<Rightarrow> path \<Rightarrow> string \<Rightarrow> js_error + filesystem" where
  "git_commit f wd message =
     (case find_repository f wd of
        None \<Rightarrow> Inl (SysError ''fatal: not a git repository'')
      | Some (d, r) \<Rightarrow>
          if set (staged r) = set (head_files r) then Inl (SysError ''nothing to commit'')
          else Inr (put f (d @ [''.git'']) (Git (r\<lparr>commits := (message, staged r) # commits r\<rparr>))))"

text \<open>What a command that succeeds does to the tree, by its words. A command the model
  does not know leaves the tree as it is.\<close>

fun step_effect :: "path \<Rightarrow> string list \<Rightarrow> filesystem \<Rightarrow> js_error + filesystem" where
  "step_effect wd [a, b] f =
     (if a = ''rimraf'' then Inr (remove_tree f (resolve_from wd b))
      else if a = ''git'' \<and> b = ''init'' then git_init f wd
      else Inr f)"
| "step_effect wd [a, b, c] f =
     (if a = ''rm'' \<and> b = ''-rf'' then Inr (remove_tree f (resolve_from wd c))
      else if a = ''git'' \<and> b = ''add'' \<and> c = ''.'' then git_add f wd
      else Inr f)"
| "step_effect wd [a, b, c, d] f =
     (if a = ''git'' \<and> b = ''commit'' \<and> c = ''-m'' then git_commit f wd d else Inr f)"
| "step_effect wd ws f = Inr f"

text \<open>One command of a chain: the host decides whether it can succeed at all, the tree
  whether it does.\<close>

definition run_step ::
  "env \<Rightarrow> path \<Rightarrow> string \<Rightarrow> filesystem \<Rightarrow> (js_error + string \<times> string) \<times> filesystem" where
  "run_step env wd step f =
     (case shell env step of
        Inl e \<Rightarrow> (Inl e, f)
      | Inr out \<Rightarrow>
          (case step_effect wd (words_of step) f of
             Inl e \<Rightarrow> (Inl e, f)
           | Inr f' \<Rightarrow> (Inr out, f')))"

fun run_steps ::
  "env \<Rightarrow> path \<Rightarrow> string list \<Rightarrow> string \<times> string \<Rightarrow> filesystem
     \<Rightarrow> (js_error + string \<times> string) \<times> filesystem" where
  "run_steps env wd [] out f = (Inr out, f)"
| "run_steps env wd (s # ss) out f =
     (case run_step env wd s f of
        (Inl e, f') \<Rightarrow> (Inl e, f')
      | (Inr (so, se), f') \<Rightarrow> run_steps env wd ss (fst out @ so, snd out @ se) f')"

text \<open>
  \<open>exec(command, {cwd})\<close>: the promise resolves with what the command line wrote, and
  rejects when the shell cannot be started in the working directory or the command line
  fails.
\<close>

definition exec_result ::
  "env \<Rightarrow> string \<Rightarrow> string option \<Rightarrow> filesystem \<Rightarrow> (js_error + string \<times> string) \<times> filesystem" where
  "exec_result env command dir f =
     (case working_dir env f dir of
        Inl e \<Rightarrow> (Inl e, f)
      | Inr wd \<Rightarrow>
          if is_clone_command command then
            (case git_clone env command of
               Inl e \<Rightarrow> (Inl e, f)
             | Inr c \<Rightarrow>
                 (case clone_into f wd c of
                    Inl e \<Rightarrow> (Inl e, f)
                  | Inr f' \<Rightarrow> (Inr (c_output c), f')))
          else run_steps env wd (steps_of command) ([], []) f)"

definition exec ::
  "env \<Rightarrow> string \<Rightarrow> string option \<Rightarrow> world \<Rightarrow> (js_error + string \<times> string) \<times> world" where
  "exec env command dir w =
     (fst (exec_result env command dir (fs w)),
      record_call (Exec command dir (fst (exec_result env command dir (fs w))))
        (snd (exec_result env command dir (fs w))) w)"

subsection \<open>The program\<close>

fun or_empty :: "string list option \<Rightarrow> string list" where
  "or_empty None = []"
| "or_empty (Some xs) = xs"

definition violations :: "validation_result \<Rightarrow> string list" where
  "violations r = or_empty (errors r) @ or_empty (warnings r)"

definition checkAppName :: "env \<Rightarrow> string \<Rightarrow> world \<Rightarrow> unit outcome \<times> world" where
  "checkAppName env appName w =
     (let validationResult = validateProjectName env appName in
      if \<not> validForNewPackages validationResult then
        (let w1 = console_error (''Cannot create a project named '' @ dquote @ appName @ dquote
                     @ '' because of npm naming restrictions:'' @ newline) w;
             w2 = foldl (\<lambda>w error. console_error (''  * '' @ error) w) w1 (violations validationResult);
             w3 = console_error (newline @ ''Please choose a different project name.'') w2
         in process_exit (Some 1) w3)
      else (Returned (), w))"

text \<open>
  \<open>install\<close>: the executor of the promise calls \<open>spawn\<close>, prints two lines and listens
  to \<open>close\<close> only. When \<open>spawn\<close> throws, the promise rejects with what was thrown and
  nothing is printed; when the child emits \<open>error\<close>, nothing listens, and the process
  ends with the promise pending. What the installer writes to the tree is not part of the
  model.
\<close>

definition install :: "env \<Rightarrow> string \<Rightarrow> string list \<Rightarrow> world \<Rightarrow> unit outcome \<times> world" where
  "install env root dependencies w =
     (let command = ''npm'';
          args = [''install'', ''--save'', ''--loglevel'', ''error''] @ dependencies;
          child = spawn_result env (''./'' @ root) (fs w);
          w1 = emit (Spawn command args (''./'' @ root) child) w
      in case child of
           Not_started e \<Rightarrow> (Threw e, w1)
         | Start_failed e \<Rightarrow>
             (let w2 = console_log [] w1;
                  w3 = console_log [Str ''Install dependencies....''] w2
              in (Crashed e, w3))
         | Closed code \<Rightarrow>
             (let w2 = console_log [] w1;
                  w3 = console_log [Str ''Install dependencies....''] w2
              in if code \<noteq> Some 0
                 then (Threw (CommandFailure (command @ '' '' @ join '' '' args)), w3)
                 else (Returned (), w3)))"

definition node_warning :: "string \<Rightarrow> string" where
  "node_warning v =
     ''You are using Node '' @ v
       @ '' so the project will be bootstrapped with an old unsupported version of tools.''
       @ newline @ newline
       @ ''Please update to Node 10 or higher for a better, fully supported experience.'' @ newline"

text \<open>The history reset is one shell command, a chain of four steps.\<close>

fun remover_text :: "remover \<Rightarrow> string" where
  "remover_text Rm_rf = ''rm -rf''"
| "remover_text Rimraf = ''rimraf''"

definition reset_steps :: "remover \<Rightarrow> string list" where
  "reset_steps r =
     [remover_text r @ '' .git'', ''git init'', ''git add .'',
      ''git commit -m '' @ dquote @ ''create front-end app'' @ dquote]"

definition reset_command :: "remover \<Rightarrow> string" where
  "reset_command r = join '' && '' (reset_steps r)"

text \<open>The body of the \<open>try\<close> block of \<open>creatApp\<close>.\<close>

definition creatApp_try ::
  "env \<Rightarrow> string \<Rightarrow> jsval \<Rightarrow> jsval \<Rightarrow> world \<Rightarrow> unit outcome \<times> world" where
  "creatApp_try env name templateName templateUrl w =
     (case exec env (''git clone '' @ template_text templateUrl) (Some (''./'' @ name)) w of
        (Inl e, w1) \<Rightarrow> (Threw e, w1)
      | (Inr _, w1) \<Rightarrow>
          (let w2 = console_log [] w1;
               w3 = console_log [Str ''Downloading success!!!''] w2;
               w4 = console_log [] w3
           in case fs_stat env (path_string (cwd env) @ ''/'' @ name @ ''/'' @ template_text templateName) w4 of
                (Inl e, w5) \<Rightarrow> (Threw e, w5)
              | (Inr isDirectory, w5) \<Rightarrow>
                  (case (if isDirectory
                         then exec env (reset_command (remover env))
                                (Some (''./'' @ name @ ''/'' @ template_text templateName)) w5
                         else (Inr ([], []), w5)) of
                     (Inl e, w6) \<Rightarrow> (Threw e, w6)
                   | (Inr _, w6) \<Rightarrow>
                       (let w7 = console_log
                              [Str ''Delete the origin git and add new git commit first time!!!''] w6
                        in install env (name @ ''/'' @ template_text templateName) [] w7))))"

definition creatApp ::
  "env \<Rightarrow> string \<Rightarrow> jsval \<Rightarrow> jsval \<Rightarrow> world \<Rightarrow> unit outcome \<times> world" where
  "creatApp env name templateName templateUrl w =
     (let w1 = (if \<not> node_supported env
                then console_log [Str (node_warning (process_version env))] w else w);
          root = resolve_from (cwd env) name;
          appName = basename root
      in case checkAppName env appName w1 of
           (Exited c, w2) \<Rightarrow> (Exited c, w2)
         | (Threw e, w2) \<Rightarrow> (Threw e, w2)
         | (Crashed e, w2) \<Rightarrow> (Crashed e, w2)
         | (Returned _, w2) \<Rightarrow>
             (case ensureDirSync env name w2 of
                (Inl e, w3) \<Rightarrow> (Threw e, w3)
              | (Inr _, w3) \<Rightarrow>
                  (let w4 = console_log [] w3;
                       w5 = console_log
                              [Str (''Creating a new React app in '' @ path_string root @ ''.'')] w4
                   in case exec env ''git --version'' None w5 of
                        (Inl e, w6) \<Rightarrow> (Threw e, w6)
                      | (Inr (stdout, stderr), w6) \<Rightarrow>
                          (let w7 = (if stderr \<noteq> [] then console_error stderr w6 else w6)
                           in if stdout \<noteq> [] \<and> str_includes stdout ''git version'' then
                                (let w8 = console_log [Str (trim stdout)] w7;
                                     w9 = console_log [] w8;
                                     w10 = console_log
                                             [Str (''now clone the template in '' @ name @ ''....'')] w9
                                 in case emptyDirSync env name w10 of
                                      (Inl e, w11) \<Rightarrow> (Threw e, w11)
                                    | (Inr _, w11) \<Rightarrow>
                                        (let w12 = console_log [] w11;
                                             w13 = console_log [Str ''Find folder successfully!''] w12;
                                             w14 = console_log [templateUrl, templateName] w13
                                         in case creatApp_try env name templateName templateUrl w14 of
                                              (Threw err, w15) \<Rightarrow>
                                                (Returned (), emit (ConsoleErrorObj err) w15)
                                            | (Returned _, w15) \<Rightarrow> (Returned (), w15)
                                            | (Crashed e, w15) \<Rightarrow> (Crashed e, w15)
                                            | (Exited c, w15) \<Rightarrow> (Exited c, w15)))
                              else (Returned (), w7)))))"

text \<open>The guidance both entry points print when the project directory is missing.\<close>

definition usage :: "env \<Rightarrow> string \<Rightarrow> world \<Rightarrow> world" where
  "usage env example w =
     (let w1 = console_error ''Please specify the project directory:'' w;
          w2 = console_log [Str (''  '' @ package_name env @ '' <project-directory>'')] w1;
          w3 = console_log [] w2;
          w4 = console_log [Str ''For example:''] w3;
          w5 = console_log [Str (''  '' @ package_name env @ '' '' @ example)] w4;
          w6 = console_log [] w5
      in console_log [Str (''Run '' @ package_name env @ '' --help to see all options.'')] w6)"

text \<open>
  \<open>init\<close> of the flag-based variant, after the command line is parsed: \<open>projectName\<close>
  is the positional argument (\<open>None\<close> when it is missing), \<open>template\<close> the value of
  \<open>--template\<close> (its default is \<open>react-starter\<close>).
\<close>

definition init_flag :: "env \<Rightarrow> string option \<Rightarrow> string \<Rightarrow> world \<Rightarrow> unit outcome \<times> world" where
  "init_flag env projectName template w =
     (case projectName of
        None \<Rightarrow> process_exit None (usage env ''Ceridian-project'' w)
      | Some name \<Rightarrow>
          (let templeName = Str template;
               templateUrl = js_lookup templeUrls template
           in creatApp env name templeName templateUrl w))"

text \<open>The prompts of the interactive variant.\<close>

definition select :: "env \<Rightarrow> world \<Rightarrow> (js_error + string) \<times> world" where
  "select env w = (select_prompt env, emit (Select (select_prompt env)) w)"

definition input :: "env \<Rightarrow> string \<Rightarrow> world \<Rightarrow> (js_error + string) \<times> world" where
  "input env question w = (input_prompt env question, emit (Input question (input_prompt env question)) w)"

text \<open>\<open>qa\<close> returns an array of one or of three answers; the caller takes it apart into
  three variables, the last two \<open>undefined\<close> (\<open>None\<close>) for the short array.\<close>

definition qa ::
  "env \<Rightarrow> world \<Rightarrow> (js_error + string \<times> string option \<times> string option) \<times> world" where
  "qa env w =
     (case select env w of
        (Inl e, w1) \<Rightarrow> (Inl e, w1)
      | (Inr selectName, w1) \<Rightarrow>
          if selectName = ''custom'' then
            (case input env ''templateName'' w1 of
               (Inl e, w2) \<Rightarrow> (Inl e, w2)
             | (Inr cusName, w2) \<Rightarrow>
                 (case input env ''templateUrl'' w2 of
                    (Inl e, w3) \<Rightarrow> (Inl e, w3)
                  | (Inr cusUrl, w3) \<Rightarrow> (Inr (selectName, Some cusName, Some cusUrl), w3)))
          else (Inr (selectName, None, None), w1))"

text \<open>\<open>!v\<close> for a string or \<open>undefined\<close>.\<close>

fun falsy :: "string option \<Rightarrow> bool" where
  "falsy None = True"
| "falsy (Some s) = (s = [])"

fun of_opt :: "string option \<Rightarrow> jsval" where
  "of_opt None = Undefined"
| "of_opt (Some s) = Str s"

definition init_interactive :: "env \<Rightarrow> string option \<Rightarrow> world \<Rightarrow> unit outcome \<times> world" where
  "init_interactive env projectName w =
     (case projectName of
        None \<Rightarrow> process_exit None (usage env ''Custom-react-project'' w)
      | Some name \<Rightarrow>
          (case qa env w of
             (Inl e, w1) \<Rightarrow> (Threw e, w1)
           | (Inr (selectAnswer, cusName, cusUrl), w1) \<Rightarrow>
               if selectAnswer = ''custom'' \<and> (falsy cusName \<or> falsy cusUrl) then
                 (let w2 = console_log [] w1;
                      w3 = console_log [Str ''You must input your own template!!!''] w2;
                      w4 = console_log [] w3
                  in process_exit None w4)
               else if selectAnswer = ''custom'' then
                 creatApp env name (of_opt cusName) (of_opt cusUrl) w1
               else
                 creatApp env name (Str selectAnswer) (js_lookup templateUrls selectAnswer) w1))"

subsection \<open>Reading a run\<close>

text \<open>The condition under which \<open>creatApp\<close> goes on after the probe:
  \<open>stdout && stdout.includes('git version')\<close>.\<close>

definition success_marker :: "string \<Rightarrow> bool" where
  "success_marker out = (out \<noteq> [] \<and> str_includes out ''git version'')"

text \<open>The name \<open>creatApp\<close> validates.\<close>

definition app_name :: "env \<Rightarrow> string \<Rightarrow> string" where
  "app_name env name = basename (resolve_from (cwd env) name)"

text \<open>The contract of \<open>validate-npm-package-name\<close>: a name is valid for new packages
  exactly when the validator has nothing to report.\<close>

definition validator_contract :: "validation_result \<Rightarrow> bool" where
  "validator_contract r = (validForNewPackages r = (violations r = []))"

text \<open>Kinds of calls.\<close>

definition is_reset_command :: "string \<Rightarrow> bool" where
  "is_reset_command c = (c = reset_command Rm_rf \<or> c = reset_command Rimraf)"

fun is_clone_exec :: "event \<Rightarrow> bool" where
  "is_clone_exec (Exec c d r) = is_clone_command c"
| "is_clone_exec _ = False"

fun is_reset_exec :: "event \<Rightarrow> bool" where
  "is_reset_exec (Exec c d r) = is_reset_command c"
| "is_reset_exec _ = False"

fun is_spawn :: "event \<Rightarrow> bool" where
  "is_spawn (Spawn c a d r) = True"
| "is_spawn _ = False"

fun is_exit :: "event \<Rightarrow> bool" where
  "is_exit (ProcessExit c) = True"
| "is_exit _ = False"

fun is_error_report :: "event \<Rightarrow> bool" where
  "is_error_report (ConsoleErrorObj e) = True"
| "is_error_report _ = False"

text \<open>The error with which a step inside the \<open>try\<close> block other than the installer
  failed: the clone, the \<open>stat\<close> or the history reset.\<close>

fun try_failure :: "event \<Rightarrow> js_error option" where
  "try_failure (Exec c d (Inl e)) = (if is_clone_command c \<or> is_reset_command c then Some e else None)"
| "try_failure (Stat p (Inl e)) = Some e"
| "try_failure _ = None"

text \<open>Names for the pieces of a trace.\<close>

definition at :: "filesystem \<Rightarrow> event list \<Rightarrow> (event \<times> filesystem) list" where
  "at f es = map (\<lambda>e. (e, f)) es"

definition node_note :: "env \<Rightarrow> event list" where
  "node_note env =
     (if \<not> node_supported env then [ConsoleLog [Str (node_warning (process_version env))]] else [])"

definition refusal :: "env \<Rightarrow> string \<Rightarrow> event list" where
  "refusal env appName =
     ConsoleError (''Cannot create a project named '' @ dquote @ appName @ dquote
                     @ '' because of npm naming restrictions:'' @ newline)
     # map (\<lambda>m. ConsoleError (''  * '' @ m)) (violations (validateProjectName env appName))
     @ [ConsoleError (newline @ ''Please choose a different project name.''), ProcessExit (Some 1)]"

definition creating :: "env \<Rightarrow> string \<Rightarrow> event list" where
  "creating env name =
     [EnsureDirSync name None, ConsoleLog [],
      ConsoleLog [Str (''Creating a new React app in '' @ path_string (resolve_from (cwd env) name) @ ''.'')]]"

definition probe_warning :: "string \<Rightarrow> event list" where
  "probe_warning se = (if se \<noteq> [] then [ConsoleError se] else [])"

definition probed :: "env \<Rightarrow> string \<Rightarrow> string \<Rightarrow> string \<Rightarrow> event list" where
  "probed env name so se =
     creating env name @ [Exec ''git --version'' None (Inr (so, se))] @ probe_warning se"

definition cloning_logs :: "string \<Rightarrow> string \<Rightarrow> event list" where
  "cloning_logs name so =
     [ConsoleLog [Str (trim so)], ConsoleLog [],
      ConsoleLog [Str (''now clone the template in '' @ name @ ''....'')]]"

definition found_logs :: "jsval \<Rightarrow> jsval \<Rightarrow> event list" where
  "found_logs tu tn =
     [ConsoleLog [], ConsoleLog [Str ''Find folder successfully!''], ConsoleLog [tu, tn]]"

definition clone_command :: "jsval \<Rightarrow> string" where
  "clone_command tu = ''git clone '' @ template_text tu"

definition project_dir :: "string \<Rightarrow> string" where
  "project_dir name = ''./'' @ name"

definition nested_dir :: "string \<Rightarrow> jsval \<Rightarrow> string" where
  "nested_dir name tn = ''./'' @ name @ ''/'' @ template_text tn"


definition metadata :: "path \<Rightarrow> path" where
  "metadata d = d @ [''.git'']"

definition stat_path :: "env \<Rightarrow> string \<Rightarrow> jsval \<Rightarrow> string" where
  "stat_path env name tn = path_string (cwd env) @ ''/'' @ name @ ''/'' @ template_text tn"

definition downloaded_logs :: "event list" where
  "downloaded_logs = [ConsoleLog [], ConsoleLog [Str ''Downloading success!!!''], ConsoleLog []]"

text \<open>The calls of the installer, the value its promise settles with, the report of a
  rejection by the handler of \<open>creatApp\<close>, and the way \<open>creatApp\<close> ends then.\<close>

definition installing :: "string \<Rightarrow> jsval \<Rightarrow> child \<Rightarrow> event list" where
  "installing name tn ch =
     [ConsoleLog [Str ''Delete the origin git and add new git commit first time!!!''],
      Spawn ''npm'' [''install'', ''--save'', ''--loglevel'', ''error''] (nested_dir name tn) ch]
     @ (case ch of
          Not_started e \<Rightarrow> []
        | _ \<Rightarrow> [ConsoleLog [], ConsoleLog [Str ''Install dependencies....'']])"

definition install_result :: "child \<Rightarrow> unit outcome" where
  "install_result ch =
     (case ch of
        Not_started e \<Rightarrow> Threw e
      | Start_failed e \<Rightarrow> Crashed e
      | Closed code \<Rightarrow>
          if code \<noteq> Some 0 then Threw (CommandFailure ''npm install --save --loglevel error'')
          else Returned ())"

definition install_report :: "child \<Rightarrow> event list" where
  "install_report ch = (case install_result ch of Threw e \<Rightarrow> [ConsoleErrorObj e] | _ \<Rightarrow> [])"

definition finish :: "child \<Rightarrow> unit outcome" where
  "finish ch = (case ch of Start_failed e \<Rightarrow> Crashed e | _ \<Rightarrow> Returned ())"

text \<open>The trace of a run up to the \<open>try\<close> block: \<open>f0\<close> is the tree at the start,
  \<open>f1\<close> the tree once the directory is ensured, \<open>f2\<close> the tree once it is emptied.\<close>

definition entry_trace ::
  "env \<Rightarrow> string \<Rightarrow> string \<Rightarrow> string \<Rightarrow> jsval \<Rightarrow> jsval \<Rightarrow> filesystem \<Rightarrow> filesystem \<Rightarrow> filesystem
     \<Rightarrow> (event \<times> filesystem) list" where
  "entry_trace env name so se tn tu f0 f1 f2 =
     at f0 (node_note env) @ at f1 (probed env name so se @ cloning_logs name so)
       @ at f2 (EmptyDirSync name None # found_logs tu tn)"

definition entry_events :: "env \<Rightarrow> string \<Rightarrow> string \<Rightarrow> string \<Rightarrow> jsval \<Rightarrow> jsval \<Rightarrow> event list" where
  "entry_events env name so se tn tu =
     node_note env @ probed env name so se @ cloning_logs name so
       @ EmptyDirSync name None # found_logs tu tn"

definition cloned_events :: "env \<Rightarrow> string \<Rightarrow> jsval \<Rightarrow> jsval \<Rightarrow> string \<times> string \<Rightarrow> event list" where
  "cloned_events env name tn tu out =
     Exec (clone_command tu) (Some (project_dir name)) (Inr out) # downloaded_logs"

subsection \<open>A concrete environment\<close>

text \<open>
  A host with a working \<open>git\<close> that also writes a hint to its diagnostic stream, a
  validator that accepts only the name \<open>app\<close>, a remote that delivers a directory
  \<open>t\<close> with one file and a history of two commits, and an installer that succeeds; the
  working directory \<open>/w\<close> already holds a project directory \<open>app\<close> with a file in it.
\<close>

definition demo_env :: env where
  "demo_env =
     \<lparr>cwd = [''w''], package_name = ''cli'', process_version = ''v18'', node_supported = True,
      remover = Rm_rf,
      validateProjectName =
        (\<lambda>s. if s = ''app'' then \<lparr>validForNewPackages = True, errors = None, warnings = None\<rparr>
             else \<lparr>validForNewPackages = False,
                   errors = Some [''name can only contain URL-friendly characters''],
                   warnings = Some [''name can no longer contain capital letters'']\<rparr>),
      shell = (\<lambda>c. if c = ''git --version'' then Inr (''git version 2'', ''hint'') else Inr ([], [])),
      git_clone =
        (\<lambda>c. Inr \<lparr>c_output = ([], []), c_dir = ''t'',
                  c_tree = [([''.git''],
                             Git \<lparr>staged = [([''a''], ''new'')],
                                  commits = [(''second'', [([''a''], ''new'')]),
                                             (''first'', [([''a''], ''draft'')])]\<rparr>),
                            ([''a''], File ''new'')]\<rparr>),
      npm = Inr (Some 0),
      select_prompt = Inr ''custom'',
      input_prompt = (\<lambda>q. if q = ''templateName'' then Inr ''t'' else Inr ''u'')\<rparr>"

definition demo_fs :: filesystem where
  "demo_fs = [([''w''], Dir), ([''w'', ''app''], Dir), ([''w'', ''app'', ''old''], File ''o'')]"


text \<open>Variants: a probe that prints no version, a remote that cannot be reached, and a
  host on which \<open>git commit\<close> fails because the author is not configured.\<close>

definition quiet_env :: env where
  "quiet_env = demo_env\<lparr>shell := (\<lambda>c. Inr ([], ''warn''))\<rparr>"

definition offline_env :: env where
  "offline_env = demo_env\<lparr>git_clone := (\<lambda>c. Inl (SysError ''fatal: unable to access''))\<rparr>"

definition unsigned_env :: env where
  "unsigned_env =
     demo_env\<lparr>shell := (\<lambda>c. if c = ''git --version'' then Inr (''git version 2'', [])
                           else if prefix ''git commit'' c then Inl (SysError ''Please tell me who you are'')
                           else Inr ([], []))\<rparr>"

section \<open>Properties\<close>

subsection \<open>Worlds and traces\<close>

lemma trace_record_call [simp]: "trace (record_call e f w) = trace w @ [(e, f)]"
  by (simp add: record_call_def)

lemma fs_record_call [simp]: "fs (record_call e f w) = f"
  by (simp add: record_call_def)

lemma trace_emit [simp]: "trace (emit e w) = trace w @ [(e, fs w)]"
  by (simp add: emit_def)

lemma fs_emit [simp]: "fs (emit e w) = fs w"
  by (simp add: emit_def)

lemma trace_console_log [simp]: "trace (console_log v w) = trace w @ [(ConsoleLog v, fs w)]"
  by (simp add: console_log_def)

lemma fs_console_log [simp]: "fs (console_log v w) = fs w"
  by (simp add: console_log_def)

lemma trace_console_error [simp]: "trace (console_error s w) = trace w @ [(ConsoleError s, fs w)]"
  by (simp add: console_error_def)

lemma fs_console_error [simp]: "fs (console_error s w) = fs w"
  by (simp add: console_error_def)

lemma trace_start [simp]: "trace (start f) = []"
  by (simp add: start_def)

lemma fs_start [simp]: "fs (start f) = f"
  by (simp add: start_def)

lemma at_simps [simp]:
  "at f [] = []" "at f (e # es) = (e, f) # at f es" "at f (xs @ ys) = at f xs @ at f ys"
  by (simp_all add: at_def)

lemma map_fst_at [simp]: "map fst (at f es) = es"
  by (simp add: at_def comp_def)

lemma events_world [simp]: "events \<lparr>fs = f, trace = t\<rparr> = map fst t"
  by (simp add: events_def)

lemma events_start [simp]: "events (start f) = []"
  by (simp add: events_def)

lemma trace_violation_lines:
  "trace (foldl (\<lambda>w error. console_error (g error) w) w xs) =
     trace w @ at (fs w) (map (\<lambda>m. ConsoleError (g m)) xs)"
proof (induction xs arbitrary: w)
  case Nil
  show ?case by simp
next
  case (Cons x xs)
  show ?case by (simp add: Cons.IH)
qed

lemma fs_violation_lines:
  "fs (foldl (\<lambda>w error. console_error (g error) w) w xs) = fs w"
  by (induction xs arbitrary: w) simp_all

subsection \<open>Shell commands\<close>

lemma not_clone_reset [simp]: "\<not> is_clone_command (reset_command r)"
  by (cases r) (simp_all add: is_clone_command_def reset_command_def reset_steps_def)

lemma not_clone_version [simp]: "\<not> is_clone_command ''git --version''"
  by (simp add: is_clone_command_def)

lemma is_clone_clone_command [simp]: "is_clone_command (clone_command tu)"
  by (simp add: is_clone_command_def clone_command_def)

lemma steps_of_version: "steps_of ''git --version'' = [''git --version'']"
  by code_simp

lemma words_of_version: "words_of ''git --version'' = [''git'', ''--version'']"
  by code_simp

lemma exec_result_version [simp]:
  "exec_result env ''git --version'' None f = (shell env ''git --version'', f)"
proof (cases "shell env ''git --version''")
  case (Inl e)
  then show ?thesis
    by (simp add: exec_result_def working_dir_def steps_of_version run_step_def)
next
  case (Inr out)
  obtain so se where out: "out = (so, se)" by (cases out)
  show ?thesis
    using Inr unfolding out
    by (simp add: exec_result_def working_dir_def steps_of_version run_step_def words_of_version)
qed

lemma exec_result_cases:
  obtains (failed) e f' where "exec_result env c d f = (Inl e, f')"
        | (ran) out f' where "exec_result env c d f = (Inr out, f')"
proof (cases "exec_result env c d f")
  case (Pair r f')
  then show ?thesis by (cases r) (auto intro: failed ran)
qed

lemma exec_clone_cases:
  obtains (failed) e where "exec_result env (clone_command tu) d f = (Inl e, f)"
        | (ran) out f' where "exec_result env (clone_command tu) d f = (Inr out, f')"
proof (cases rule: exec_result_cases[of env "clone_command tu" d f])
  case (failed e f')
  have "f' = f"
    using failed by (auto simp: exec_result_def split: sum.splits if_splits)
  with failed show ?thesis by (auto intro: that(1))
next
  case (ran out f')
  then show ?thesis by (rule that(2))
qed

subsection \<open>The installer\<close>

lemma install_run:
  "install env root dependencies w =
     (case spawn_result env (''./'' @ root) (fs w) of
        Not_started e \<Rightarrow> Threw e
      | Start_failed e \<Rightarrow> Crashed e
      | Closed code \<Rightarrow>
          if code \<noteq> Some 0
          then Threw (CommandFailure (join '' '' (''npm'' # ''install'' # ''--save'' # ''--loglevel''
                                                 # ''error'' # dependencies)))
          else Returned (),
      \<lparr>fs = fs w, trace = trace w @ at (fs w)
         (Spawn ''npm'' ([''install'', ''--save'', ''--loglevel'', ''error''] @ dependencies)
            (''./'' @ root) (spawn_result env (''./'' @ root) (fs w))
          # (case spawn_result env (''./'' @ root) (fs w) of
               Not_started e \<Rightarrow> []
             | _ \<Rightarrow> [ConsoleLog [], ConsoleLog [Str ''Install dependencies....'']]))\<rparr>)"
  by (cases "spawn_result env (''./'' @ root) (fs w)")
     (simp_all add: install_def Let_def emit_def record_call_def console_log_def)

subsection \<open>The runs of \<open>creatApp\<close>\<close>

lemmas try_names = clone_command_def project_dir_def stat_path_def nested_dir_def
  downloaded_logs_def Let_def

lemma creatApp_try_cases [case_names c_failed s_failed r_failed r_done r_skipped]:
  obtains
    (c_failed) e where
      "exec_result env (clone_command tu) (Some (project_dir name)) (fs w) = (Inl e, fs w)"
      "creatApp_try env name tn tu w =
         (Threw e, \<lparr>fs = fs w, trace = trace w
            @ at (fs w) [Exec (clone_command tu) (Some (project_dir name)) (Inl e)]\<rparr>)"
  | (s_failed) out f3 e where
      "exec_result env (clone_command tu) (Some (project_dir name)) (fs w) = (Inr out, f3)"
      "stat_result env (stat_path env name tn) f3 = Inl e"
      "creatApp_try env name tn tu w =
         (Threw e, \<lparr>fs = f3, trace = trace w
            @ at f3 (Exec (clone_command tu) (Some (project_dir name)) (Inr out) # downloaded_logs
                     @ [Stat (stat_path env name tn) (Inl e)])\<rparr>)"
  | (r_failed) out f3 e f4 where
      "exec_result env (clone_command tu) (Some (project_dir name)) (fs w) = (Inr out, f3)"
      "stat_result env (stat_path env name tn) f3 = Inr True"
      "exec_result env (reset_command (remover env)) (Some (nested_dir name tn)) f3 = (Inl e, f4)"
      "creatApp_try env name tn tu w =
         (Threw e, \<lparr>fs = f4, trace = trace w
            @ at f3 (Exec (clone_command tu) (Some (project_dir name)) (Inr out) # downloaded_logs
                     @ [Stat (stat_path env name tn) (Inr True)])
            @ at f4 [Exec (reset_command (remover env)) (Some (nested_dir name tn)) (Inl e)]\<rparr>)"
  | (r_done) out f3 out' f4 where
      "exec_result env (clone_command tu) (Some (project_dir name)) (fs w) = (Inr out, f3)"
      "stat_result env (stat_path env name tn) f3 = Inr True"
      "exec_result env (reset_command (remover env)) (Some (nested_dir name tn)) f3 = (Inr out', f4)"
      "creatApp_try env name tn tu w =
         (install_result (spawn_result env (nested_dir name tn) f4), \<lparr>fs = f4, trace = trace w
            @ at f3 (Exec (clone_command tu) (Some (project_dir name)) (Inr out) # downloaded_logs
                     @ [Stat (stat_path env name tn) (Inr True)])
            @ at f4 (Exec (reset_command (remover env)) (Some (nested_dir name tn)) (Inr out')
                     # installing name tn (spawn_result env (nested_dir name tn) f4))\<rparr>)"
  | (r_skipped) out f3 where
      "exec_result env (clone_command tu) (Some (project_dir name)) (fs w) = (Inr out, f3)"
      "stat_result env (stat_path env name tn) f3 = Inr False"
      "creatApp_try env name tn tu w =
         (install_result (spawn_result env (nested_dir name tn) f3), \<lparr>fs = f3, trace = trace w
            @ at f3 (Exec (clone_command tu) (Some (project_dir name)) (Inr out) # downloaded_logs
                     @ [Stat (stat_path env name tn) (Inr False)]
                     @ installing name tn (spawn_result env (nested_dir name tn) f3))\<rparr>)"
proof (cases rule: exec_clone_cases[of env tu "Some (project_dir name)" "fs w"])
  case (failed e)
  have "creatApp_try env name tn tu w =
         (Threw e, \<lparr>fs = fs w, trace = trace w
            @ at (fs w) [Exec (clone_command tu) (Some (project_dir name)) (Inl e)]\<rparr>)"
    using failed
    by (simp add: creatApp_try_def exec_def try_names)
  with failed show ?thesis by (rule c_failed)
next
  case (ran out f3)
  note cl = ran
  show ?thesis
  proof (cases "stat_result env (stat_path env name tn) f3")
    case (Inl e)
    have "creatApp_try env name tn tu w =
         (Threw e, \<lparr>fs = f3, trace = trace w
            @ at f3 (Exec (clone_command tu) (Some (project_dir name)) (Inr out) # downloaded_logs
                     @ [Stat (stat_path env name tn) (Inl e)])\<rparr>)"
      using cl Inl by (simp add: creatApp_try_def exec_def fs_stat_def try_names)
    with cl Inl show ?thesis by (rule s_failed)
  next
    case (Inr b)
    note st = Inr
    show ?thesis
    proof (cases b)
      case False
      have "creatApp_try env name tn tu w =
         (install_result (spawn_result env (nested_dir name tn) f3), \<lparr>fs = f3, trace = trace w
            @ at f3 (Exec (clone_command tu) (Some (project_dir name)) (Inr out) # downloaded_logs
                     @ [Stat (stat_path env name tn) (Inr False)]
                     @ installing name tn (spawn_result env (nested_dir name tn) f3))\<rparr>)"
        using cl st False
        by (simp add: creatApp_try_def exec_def fs_stat_def install_run install_result_def
            installing_def try_names split: child.splits)
      with cl st False show ?thesis by (simp add: r_skipped)
    next
      case True
      show ?thesis
      proof (cases rule: exec_result_cases[of env "reset_command (remover env)"
            "Some (nested_dir name tn)" f3])
        case (failed e f4)
        have "creatApp_try env name tn tu w =
         (Threw e, \<lparr>fs = f4, trace = trace w
            @ at f3 (Exec (clone_command tu) (Some (project_dir name)) (Inr out) # downloaded_logs
                     @ [Stat (stat_path env name tn) (Inr True)])
            @ at f4 [Exec (reset_command (remover env)) (Some (nested_dir name tn)) (Inl e)]\<rparr>)"
          using cl st True failed
          by (simp add: creatApp_try_def exec_def fs_stat_def try_names)
        with cl st True failed show ?thesis by (simp add: r_failed)
      next
        case (ran out' f4)
        have "creatApp_try env name tn tu w =
         (install_result (spawn_result env (nested_dir name tn) f4), \<lparr>fs = f4, trace = trace w
            @ at f3 (Exec (clone_command tu) (Some (project_dir name)) (Inr out) # downloaded_logs
                     @ [Stat (stat_path env name tn) (Inr True)])
            @ at f4 (Exec (reset_command (remover env)) (Some (nested_dir name tn)) (Inr out')
                     # installing name tn (spawn_result env (nested_dir name tn) f4))\<rparr>)"
          using cl st True ran
          by (simp add: creatApp_try_def exec_def fs_stat_def install_run install_result_def
            installing_def try_names split: child.splits)
        with cl st True ran show ?thesis by (simp add: r_done)
      qed
    qed
  qed
qed

lemmas run_names = app_name_def node_note_def refusal_def creating_def probe_warning_def probed_def
  cloning_logs_def found_logs_def success_marker_def[symmetric] entry_trace_def Let_def

lemma creatApp_invalid:
  assumes "\<not> validForNewPackages (validateProjectName env (app_name env name))"
  shows "creatApp env name tn tu w =
           (Exited 1, \<lparr>fs = fs w, trace = trace w
              @ at (fs w) (node_note env @ refusal env (app_name env name))\<rparr>)"
  using assms
  by (simp add: creatApp_def checkAppName_def process_exit_def run_names trace_violation_lines
      fs_violation_lines at_def)

lemma creatApp_ensure_failed:
  assumes "validForNewPackages (validateProjectName env (app_name env name))"
      and "ensureDir_result env name (fs w) = Inl e"
  shows "creatApp env name tn tu w =
           (Threw e, \<lparr>fs = fs w, trace = trace w
              @ at (fs w) (node_note env @ [EnsureDirSync name (Some e)])\<rparr>)"
  using assms
  by (simp add: creatApp_def checkAppName_def ensureDirSync_def fs_call_def run_names)

lemma creatApp_probe_failed:
  assumes "validForNewPackages (validateProjectName env (app_name env name))"
      and "ensureDir_result env name (fs w) = Inr f1"
      and "shell env ''git --version'' = Inl e"
  shows "creatApp env name tn tu w =
           (Threw e, \<lparr>fs = f1, trace = trace w @ at (fs w) (node_note env)
              @ at f1 (creating env name @ [Exec ''git --version'' None (Inl e)])\<rparr>)"
  using assms
  by (simp add: creatApp_def checkAppName_def ensureDirSync_def fs_call_def exec_def run_names)

lemma creatApp_no_marker:
  assumes "validForNewPackages (validateProjectName env (app_name env name))"
      and "ensureDir_result env name (fs w) = Inr f1"
      and "shell env ''git --version'' = Inr (so, se)"
      and "\<not> success_marker so"
  shows "creatApp env name tn tu w =
           (Returned (), \<lparr>fs = f1, trace = trace w @ at (fs w) (node_note env)
              @ at f1 (probed env name so se)\<rparr>)"
  using assms
  by (simp add: creatApp_def checkAppName_def ensureDirSync_def fs_call_def exec_def run_names)

lemma creatApp_empty_failed:
  assumes "validForNewPackages (validateProjectName env (app_name env name))"
      and "ensureDir_result env name (fs w) = Inr f1"
      and "shell env ''git --version'' = Inr (so, se)"
      and "success_marker so"
      and "emptyDir_result env name f1 = Inl e"
  shows "creatApp env name tn tu w =
           (Threw e, \<lparr>fs = f1, trace = trace w @ at (fs w) (node_note env)
              @ at f1 (probed env name so se @ cloning_logs name so @ [EmptyDirSync name (Some e)])\<rparr>)"
  using assms
  by (simp add: creatApp_def checkAppName_def ensureDirSync_def emptyDirSync_def fs_call_def
      exec_def run_names)

lemma creatApp_entered:
  assumes "validForNewPackages (validateProjectName env (app_name env name))"
      and "ensureDir_result env name (fs w) = Inr f1"
      and "shell env ''git --version'' = Inr (so, se)"
      and "success_marker so"
      and "emptyDir_result env name f1 = Inr f2"
  shows "creatApp env name tn tu w =
           (case creatApp_try env name tn tu
                   \<lparr>fs = f2, trace = trace w @ entry_trace env name so se tn tu (fs w) f1 f2\<rparr> of
              (Threw err, w15) \<Rightarrow> (Returned (), emit (ConsoleErrorObj err) w15)
            | (Returned _, w15) \<Rightarrow> (Returned (), w15)
            | (Crashed e, w15) \<Rightarrow> (Crashed e, w15)
            | (Exited c, w15) \<Rightarrow> (Exited c, w15))"
  using assms
  by (simp add: creatApp_def checkAppName_def ensureDirSync_def emptyDirSync_def fs_call_def
      exec_def run_names console_log_def console_error_def emit_def record_call_def)

text \<open>How \<open>creatApp\<close> ends after the installer, and what its handler prints.\<close>

lemma after_install:
  "(case (install_result ch, w15) of
      (Threw err, w15) \<Rightarrow> (Returned (), emit (ConsoleErrorObj err) w15)
    | (Returned _, w15) \<Rightarrow> (Returned (), w15)
    | (Crashed e, w15) \<Rightarrow> (Crashed e, w15)
    | (Exited c, w15) \<Rightarrow> (Exited c, w15))
   = (finish ch, \<lparr>fs = fs w15, trace = trace w15 @ at (fs w15) (install_report ch)\<rparr>)"
  by (cases ch) (simp_all add: install_result_def install_report_def finish_def emit_def record_call_def)

lemma creatApp_cases [case_names invalid ensure_failed probe_failed no_marker empty_failed
    clone_failed stat_failed reset_failed reset_done reset_skipped]:
  obtains
    (invalid)
      "\<not> validForNewPackages (validateProjectName env (app_name env name))"
      "creatApp env name tn tu w =
         (Exited 1, \<lparr>fs = fs w, trace = trace w
            @ at (fs w) (node_note env @ refusal env (app_name env name))\<rparr>)"
  | (ensure_failed) e where
      "validForNewPackages (validateProjectName env (app_name env name))"
      "ensureDir_result env name (fs w) = Inl e"
      "creatApp env name tn tu w =
         (Threw e, \<lparr>fs = fs w, trace = trace w
            @ at (fs w) (node_note env @ [EnsureDirSync name (Some e)])\<rparr>)"
  | (probe_failed) f1 e where
      "validForNewPackages (validateProjectName env (app_name env name))"
      "ensureDir_result env name (fs w) = Inr f1"
      "shell env ''git --version'' = Inl e"
      "creatApp env name tn tu w =
         (Threw e, \<lparr>fs = f1, trace = trace w @ at (fs w) (node_note env)
            @ at f1 (creating env name @ [Exec ''git --version'' None (Inl e)])\<rparr>)"
  | (no_marker) f1 so se where
      "validForNewPackages (validateProjectName env (app_name env name))"
      "ensureDir_result env name (fs w) = Inr f1"
      "shell env ''git --version'' = Inr (so, se)"
      "\<not> success_marker so"
      "creatApp env name tn tu w =
         (Returned (), \<lparr>fs = f1, trace = trace w @ at (fs w) (node_note env)
            @ at f1 (probed env name so se)\<rparr>)"
  | (empty_failed) f1 so se e where
      "validForNewPackages (validateProjectName env (app_name env name))"
      "ensureDir_result env name (fs w) = Inr f1"
      "shell env ''git --version'' = Inr (so, se)"
      "success_marker so"
      "emptyDir_result env name f1 = Inl e"
      "creatApp env name tn tu w =
         (Threw e, \<lparr>fs = f1, trace = trace w @ at (fs w) (node_note env)
            @ at f1 (probed env name so se @ cloning_logs name so @ [EmptyDirSync name (Some e)])\<rparr>)"
  | (clone_failed) f1 so se f2 e where
      "validForNewPackages (validateProjectName env (app_name env name))"
      "ensureDir_result env name (fs w) = Inr f1"
      "shell env ''git --version'' = Inr (so, se)"
      "success_marker so"
      "emptyDir_result env name f1 = Inr f2"
      "exec_result env (clone_command tu) (Some (project_dir name)) f2 = (Inl e, f2)"
      "creatApp env name tn tu w =
         (Returned (), \<lparr>fs = f2, trace = trace w @ entry_trace env name so se tn tu (fs w) f1 f2
            @ at f2 [Exec (clone_command tu) (Some (project_dir name)) (Inl e), ConsoleErrorObj e]\<rparr>)"
  | (stat_failed) f1 so se f2 out f3 e where
      "validForNewPackages (validateProjectName env (app_name env name))"
      "ensureDir_result env name (fs w) = Inr f1"
      "shell env ''git --version'' = Inr (so, se)"
      "success_marker so"
      "emptyDir_result env name f1 = Inr f2"
      "exec_result env (clone_command tu) (Some (project_dir name)) f2 = (Inr out, f3)"
      "stat_result env (stat_path env name tn) f3 = Inl e"
      "creatApp env name tn tu w =
         (Returned (), \<lparr>fs = f3, trace = trace w @ entry_trace env name so se tn tu (fs w) f1 f2
            @ at f3 (Exec (clone_command tu) (Some (project_dir name)) (Inr out) # downloaded_logs
                     @ [Stat (stat_path env name tn) (Inl e), ConsoleErrorObj e])\<rparr>)"
  | (reset_failed) f1 so se f2 out f3 e f4 where
      "validForNewPackages (validateProjectName env (app_name env name))"
      "ensureDir_result env name (fs w) = Inr f1"
      "shell env ''git --version'' = Inr (so, se)"
      "success_marker so"
      "emptyDir_result env name f1 = Inr f2"
      "exec_result env (clone_command tu) (Some (project_dir name)) f2 = (Inr out, f3)"
      "stat_result env (stat_path env name tn) f3 = Inr True"
      "exec_result env (reset_command (remover env)) (Some (nested_dir name tn)) f3 = (Inl e, f4)"
      "creatApp env name tn tu w =
         (Returned (), \<lparr>fs = f4, trace = trace w @ entry_trace env name so se tn tu (fs w) f1 f2
            @ at f3 (Exec (clone_command tu) (Some (project_dir name)) (Inr out) # downloaded_logs
                     @ [Stat (stat_path env name tn) (Inr True)])
            @ at f4 [Exec (reset_command (remover env)) (Some (nested_dir name tn)) (Inl e),
                     ConsoleErrorObj e]\<rparr>)"
  | (reset_done) f1 so se f2 out f3 out' f4 ch where
      "validForNewPackages (validateProjectName env (app_name env name))"
      "ensureDir_result env name (fs w) = Inr f1"
      "shell env ''git --version'' = Inr (so, se)"
      "success_marker so"
      "emptyDir_result env name f1 = Inr f2"
      "exec_result env (clone_command tu) (Some (project_dir name)) f2 = (Inr out, f3)"
      "stat_result env (stat_path env name tn) f3 = Inr True"
      "exec_result env (reset_command (remover env)) (Some (nested_dir name tn)) f3 = (Inr out', f4)"
      "ch = spawn_result env (nested_dir name tn) f4"
      "creatApp env name tn tu w =
         (finish ch, \<lparr>fs = f4, trace = trace w @ entry_trace env name so se tn tu (fs w) f1 f2
            @ at f3 (Exec (clone_command tu) (Some (project_dir name)) (Inr out) # downloaded_logs
                     @ [Stat (stat_path env name tn) (Inr True)])
            @ at f4 (Exec (reset_command (remover env)) (Some (nested_dir name tn)) (Inr out')
                     # installing name tn ch @ install_report ch)\<rparr>)"
  | (reset_skipped) f1 so se f2 out f3 ch where
      "validForNewPackages (validateProjectName env (app_name env name))"
      "ensureDir_result env name (fs w) = Inr f1"
      "shell env ''git --version'' = Inr (so, se)"
      "success_marker so"
      "emptyDir_result env name f1 = Inr f2"
      "exec_result env (clone_command tu) (Some (project_dir name)) f2 = (Inr out, f3)"
      "stat_result env (stat_path env name tn) f3 = Inr False"
      "ch = spawn_result env (nested_dir name tn) f3"
      "creatApp env name tn tu w =
         (finish ch, \<lparr>fs = f3, trace = trace w @ entry_trace env name so se tn tu (fs w) f1 f2
            @ at f3 (Exec (clone_command tu) (Some (project_dir name)) (Inr out) # downloaded_logs
                     @ [Stat (stat_path env name tn) (Inr False)]
                     @ installing name tn ch @ install_report ch)\<rparr>)"
proof (cases "validForNewPackages (validateProjectName env (app_name env name))")
  case False
  then show ?thesis using creatApp_invalid invalid by blast
next
  case True
  note v = True
  show ?thesis
  proof (cases "ensureDir_result env name (fs w)")
    case (Inl e)
    then show ?thesis using creatApp_ensure_failed[OF v] ensure_failed v by blast
  next
    case (Inr f1)
    note en = Inr
    show ?thesis
    proof (cases "shell env ''git --version''")
      case (Inl e)
      then show ?thesis using creatApp_probe_failed[OF v en] probe_failed v en by blast
    next
      case (Inr p)
      obtain so se where p: "p = (so, se)" by (cases p)
      note pr = Inr[unfolded p]
      show ?thesis
      proof (cases "success_marker so")
        case False
        then show ?thesis using creatApp_no_marker[OF v en pr] no_marker v en pr by blast
      next
        case True
        note mk = True
        show ?thesis
        proof (cases "emptyDir_result env name f1")
          case (Inl e)
          then show ?thesis using creatApp_empty_failed[OF v en pr mk] empty_failed v en pr mk by blast
        next
          case (Inr f2)
          note em = Inr
          define w14 where "w14 = \<lparr>fs = f2, trace = trace w @ entry_trace env name so se tn tu (fs w) f1 f2\<rparr>"
          have fs14: "fs w14 = f2" and tr14: "trace w14 = trace w @ entry_trace env name so se tn tu (fs w) f1 f2"
            by (simp_all add: w14_def)
          note head = creatApp_entered[OF v en pr mk em, of tn tu, folded w14_def]
          show ?thesis
          proof (cases rule: creatApp_try_cases[of env tu name w14 tn])
            case (c_failed e)
            have "creatApp env name tn tu w =
              (Returned (), \<lparr>fs = f2, trace = trace w @ entry_trace env name so se tn tu (fs w) f1 f2
                 @ at f2 [Exec (clone_command tu) (Some (project_dir name)) (Inl e), ConsoleErrorObj e]\<rparr>)"
              by (simp add: head c_failed(2) fs14 tr14 emit_def record_call_def)
            with v en pr mk em c_failed(1)[unfolded fs14] show ?thesis by (rule clone_failed)
          next
            case (s_failed out f3 e)
            have "creatApp env name tn tu w =
              (Returned (), \<lparr>fs = f3, trace = trace w @ entry_trace env name so se tn tu (fs w) f1 f2
                 @ at f3 (Exec (clone_command tu) (Some (project_dir name)) (Inr out) # downloaded_logs
                     @ [Stat (stat_path env name tn) (Inl e), ConsoleErrorObj e])\<rparr>)"
              by (simp add: head s_failed(3) fs14 tr14 emit_def record_call_def)
            with v en pr mk em s_failed(1)[unfolded fs14] s_failed(2) show ?thesis by (rule stat_failed)
          next
            case (r_failed out f3 e f4)
            have "creatApp env name tn tu w =
              (Returned (), \<lparr>fs = f4, trace = trace w @ entry_trace env name so se tn tu (fs w) f1 f2
                 @ at f3 (Exec (clone_command tu) (Some (project_dir name)) (Inr out) # downloaded_logs
                     @ [Stat (stat_path env name tn) (Inr True)])
                 @ at f4 [Exec (reset_command (remover env)) (Some (nested_dir name tn)) (Inl e),
                          ConsoleErrorObj e]\<rparr>)"
              by (simp add: head r_failed(4) fs14 tr14 emit_def record_call_def)
            with v en pr mk em r_failed(1)[unfolded fs14] r_failed(2,3) show ?thesis
              by (rule reset_failed)
          next
            case (r_done out f3 out' f4)
            have "creatApp env name tn tu w =
              (finish (spawn_result env (nested_dir name tn) f4),
               \<lparr>fs = f4, trace = trace w @ entry_trace env name so se tn tu (fs w) f1 f2
                 @ at f3 (Exec (clone_command tu) (Some (project_dir name)) (Inr out) # downloaded_logs
                     @ [Stat (stat_path env name tn) (Inr True)])
                 @ at f4 (Exec (reset_command (remover env)) (Some (nested_dir name tn)) (Inr out')
                     # installing name tn (spawn_result env (nested_dir name tn) f4)
                     @ install_report (spawn_result env (nested_dir name tn) f4))\<rparr>)"
              unfolding head r_done(4) after_install by (simp add: fs14 tr14)
            with v en pr mk em r_done(1)[unfolded fs14] r_done(2,3) refl show ?thesis
              by (rule reset_done)
          next
            case (r_skipped out f3)
            have "creatApp env name tn tu w =
              (finish (spawn_result env (nested_dir name tn) f3),
               \<lparr>fs = f3, trace = trace w @ entry_trace env name so se tn tu (fs w) f1 f2
                 @ at f3 (Exec (clone_command tu) (Some (project_dir name)) (Inr out) # downloaded_logs
                     @ [Stat (stat_path env name tn) (Inr False)]
                     @ installing name tn (spawn_result env (nested_dir name tn) f3)
                     @ install_report (spawn_result env (nested_dir name tn) f3))\<rparr>)"
              unfolding head r_skipped(3) after_install by (simp add: fs14 tr14)
            with v en pr mk em r_skipped(1)[unfolded fs14] r_skipped(2) refl show ?thesis
              by (rule reset_skipped)
          qed
        qed
      qed
    qed
  qed
qed

lemma events_entry_trace [simp]:
  "map fst (entry_trace env name so se tn tu f0 f1 f2) = entry_events env name so se tn tu"
  by (simp add: entry_trace_def entry_events_def)

lemma reset_command_neq [simp]:
  "reset_command r \<noteq> clone_command tu" "clone_command tu \<noteq> reset_command r"
  "reset_command r \<noteq> ''git --version''" "''git --version'' \<noteq> reset_command r"
  "clone_command tu \<noteq> ''git --version''" "''git --version'' \<noteq> clone_command tu"
  by (cases r; simp add: reset_command_def reset_steps_def clone_command_def)+

lemma is_reset_command_simps [simp]:
  "is_reset_command (reset_command r)" "\<not> is_reset_command (clone_command tu)"
  "\<not> is_reset_command ''git --version''"
  by (cases r; simp add: is_reset_command_def reset_command_def reset_steps_def clone_command_def)+

lemmas piece_defs = node_note_def refusal_def creating_def probed_def probe_warning_def
  cloning_logs_def found_logs_def downloaded_logs_def installing_def install_report_def
  install_result_def entry_events_def cloned_events_def

text \<open>The runs of \<open>creatApp\<close> from an empty trace, by what they call.\<close>

lemma creatApp_events_cases [consumes 1, case_names invalid ensure_failed probe_failed no_marker
    empty_failed clone_failed stat_failed reset_failed reset_done reset_skipped]:
  assumes run: "creatApp env name tn tu (start f) = (out, w')"
  obtains
    (invalid)
      "\<not> validForNewPackages (validateProjectName env (app_name env name))"
      "out = Exited 1"
      "events w' = node_note env @ refusal env (app_name env name)"
  | (ensure_failed) e where
      "out = Threw e"
      "events w' = node_note env @ [EnsureDirSync name (Some e)]"
  | (probe_failed) e where
      "out = Threw e"
      "events w' = node_note env @ creating env name @ [Exec ''git --version'' None (Inl e)]"
  | (no_marker) so se where
      "\<not> success_marker so"
      "out = Returned ()"
      "events w' = node_note env @ probed env name so se"
  | (empty_failed) so se e where
      "success_marker so"
      "out = Threw e"
      "events w' = node_note env @ probed env name so se @ cloning_logs name so
                     @ [EmptyDirSync name (Some e)]"
  | (clone_failed) so se e where
      "success_marker so"
      "out = Returned ()"
      "events w' = entry_events env name so se tn tu
                     @ [Exec (clone_command tu) (Some (project_dir name)) (Inl e), ConsoleErrorObj e]"
  | (stat_failed) so se cl e where
      "success_marker so"
      "out = Returned ()"
      "events w' = (entry_events env name so se tn tu @ cloned_events env name tn tu cl)
                     @ [Stat (stat_path env name tn) (Inl e), ConsoleErrorObj e]"
  | (reset_failed) so se cl e where
      "success_marker so"
      "out = Returned ()"
      "events w' = (entry_events env name so se tn tu @ cloned_events env name tn tu cl
                      @ [Stat (stat_path env name tn) (Inr True)])
                     @ [Exec (reset_command (remover env)) (Some (nested_dir name tn)) (Inl e),
                        ConsoleErrorObj e]"
  | (reset_done) so se cl rs ch where
      "success_marker so"
      "out = finish ch"
      "events w' = (entry_events env name so se tn tu @ cloned_events env name tn tu cl)
                     @ [Stat (stat_path env name tn) (Inr True),
                        Exec (reset_command (remover env)) (Some (nested_dir name tn)) (Inr rs)]
                     @ installing name tn ch @ install_report ch"
  | (reset_skipped) so se cl ch where
      "success_marker so"
      "out = finish ch"
      "events w' = (entry_events env name so se tn tu @ cloned_events env name tn tu cl)
                     @ [Stat (stat_path env name tn) (Inr False)]
                     @ installing name tn ch @ install_report ch"
proof (cases rule: creatApp_cases[of env name tn tu "start f"])
  case invalid
  from invalid(2) run
  have "out = Exited 1" "events w' = node_note env @ refusal env (app_name env name)"
    by auto
  with invalid(1) show ?thesis by (rule that(1))
next
  case (ensure_failed e)
  from ensure_failed(3) run
  have "out = Threw e" "events w' = node_note env @ [EnsureDirSync name (Some e)]"
    by auto
  then show ?thesis by (rule that(2))
next
  case (probe_failed f1 e)
  from probe_failed(4) run
  have "out = Threw e"
    "events w' = node_note env @ creating env name @ [Exec ''git --version'' None (Inl e)]"
    by auto
  then show ?thesis by (rule that(3))
next
  case (no_marker f1 so se)
  from no_marker(5) run
  have "out = Returned ()" "events w' = node_note env @ probed env name so se"
    by auto
  with no_marker(4) show ?thesis by (rule that(4))
next
  case (empty_failed f1 so se e)
  from empty_failed(6) run
  have "out = Threw e"
    "events w' = node_note env @ probed env name so se @ cloning_logs name so
                   @ [EmptyDirSync name (Some e)]"
    by auto
  with empty_failed(4) show ?thesis by (rule that(5))
next
  case (clone_failed f1 so se f2 e)
  from clone_failed(7) run
  have "out = Returned ()"
    "events w' = entry_events env name so se tn tu
                   @ [Exec (clone_command tu) (Some (project_dir name)) (Inl e), ConsoleErrorObj e]"
    by auto
  with clone_failed(4) show ?thesis by (rule that(6))
next
  case (stat_failed f1 so se f2 cl f3 e)
  from stat_failed(8) run
  have "out = Returned ()"
    "events w' = (entry_events env name so se tn tu @ cloned_events env name tn tu cl)
                   @ [Stat (stat_path env name tn) (Inl e), ConsoleErrorObj e]"
    by (auto simp: cloned_events_def)
  with stat_failed(4) show ?thesis by (rule that(7))
next
  case (reset_failed f1 so se f2 cl f3 e f4)
  from reset_failed(9) run
  have "out = Returned ()"
    "events w' = (entry_events env name so se tn tu @ cloned_events env name tn tu cl
                    @ [Stat (stat_path env name tn) (Inr True)])
                   @ [Exec (reset_command (remover env)) (Some (nested_dir name tn)) (Inl e),
                      ConsoleErrorObj e]"
    by (auto simp: cloned_events_def)
  with reset_failed(4) show ?thesis by (rule that(8))
next
  case (reset_done f1 so se f2 cl f3 rs f4 ch)
  from reset_done(10) run
  have "out = finish ch"
    "events w' = (entry_events env name so se tn tu @ cloned_events env name tn tu cl)
                   @ [Stat (stat_path env name tn) (Inr True),
                      Exec (reset_command (remover env)) (Some (nested_dir name tn)) (Inr rs)]
                   @ installing name tn ch @ install_report ch"
    by (auto simp: cloned_events_def)
  with reset_done(4) show ?thesis by (rule that(9))
next
  case (reset_skipped f1 so se f2 cl f3 ch)
  from reset_skipped(9) run
  have "out = finish ch"
    "events w' = (entry_events env name so se tn tu @ cloned_events env name tn tu cl)
                   @ [Stat (stat_path env name tn) (Inr False)]
                   @ installing name tn ch @ install_report ch"
    by (auto simp: cloned_events_def)
  with reset_skipped(4) show ?thesis by (rule that(10))
qed

subsection \<open>Runs in the concrete environment\<close>

lemma demo_run_events:
  "events (snd (creatApp demo_env ''app'' (Str ''t'') (Str ''u'') (start demo_fs))) =
     [EnsureDirSync ''app'' None, ConsoleLog [],
      ConsoleLog [Str ''Creating a new React app in /w/app.''],
      Exec ''git --version'' None (Inr (''git version 2'', ''hint'')),
      ConsoleError ''hint'', ConsoleLog [Str ''git version 2''], ConsoleLog [],
      ConsoleLog [Str ''now clone the template in app....''],
      EmptyDirSync ''app'' None, ConsoleLog [],
      ConsoleLog [Str ''Find folder successfully!''],
      ConsoleLog [Str ''u'', Str ''t''],
      Exec ''git clone u'' (Some ''./app'') (Inr ([], [])), ConsoleLog [],
      ConsoleLog [Str ''Downloading success!!!''], ConsoleLog [],
      Stat ''/w/app/t'' (Inr True),
      Exec (reset_command Rm_rf) (Some ''./app/t'') (Inr ([], [])),
      ConsoleLog [Str ''Delete the origin git and add new git commit first time!!!''],
      Spawn ''npm'' [''install'', ''--save'', ''--loglevel'', ''error''] ''./app/t'' (Closed (Some 0)),
      ConsoleLog [], ConsoleLog [Str ''Install dependencies....'']]"
  by code_simp

lemma quiet_run:
  "creatApp quiet_env ''app'' (Str ''t'') (Str ''u'') (start demo_fs) =
     (Returned (), \<lparr>fs = demo_fs, trace = at demo_fs
        [EnsureDirSync ''app'' None, ConsoleLog [],
         ConsoleLog [Str ''Creating a new React app in /w/app.''],
         Exec ''git --version'' None (Inr ([], ''warn'')), ConsoleError ''warn'']\<rparr>)"
  by code_simp

lemma offline_run_events:
  "events (snd (creatApp offline_env ''app'' (Str ''t'') (Str ''u'') (start demo_fs))) =
     [EnsureDirSync ''app'' None, ConsoleLog [],
      ConsoleLog [Str ''Creating a new React app in /w/app.''],
      Exec ''git --version'' None (Inr (''git version 2'', ''hint'')),
      ConsoleError ''hint'', ConsoleLog [Str ''git version 2''], ConsoleLog [],
      ConsoleLog [Str ''now clone the template in app....''],
      EmptyDirSync ''app'' None, ConsoleLog [],
      ConsoleLog [Str ''Find folder successfully!''],
      ConsoleLog [Str ''u'', Str ''t''],
      Exec ''git clone u'' (Some ''./app'') (Inl (SysError ''fatal: unable to access'')),
      ConsoleErrorObj (SysError ''fatal: unable to access'')]"
  by code_simp

lemma nothing_run_events:
  "events (snd (init_flag demo_env (Some ''app'') ''nothing'' (start demo_fs))) =
     [EnsureDirSync ''app'' None, ConsoleLog [],
      ConsoleLog [Str ''Creating a new React app in /w/app.''],
      Exec ''git --version'' None (Inr (''git version 2'', ''hint'')),
      ConsoleError ''hint'', ConsoleLog [Str ''git version 2''], ConsoleLog [],
      ConsoleLog [Str ''now clone the template in app....''],
      EmptyDirSync ''app'' None, ConsoleLog [],
      ConsoleLog [Str ''Find folder successfully!''],
      ConsoleLog [Undefined, Str ''nothing''],
      Exec ''git clone undefined'' (Some ''./app'') (Inr ([], [])),
      ConsoleLog [], ConsoleLog [Str ''Downloading success!!!''], ConsoleLog [],
      Stat ''/w/app/nothing'' (Inl (SysError ''ENOENT'')),
      ConsoleErrorObj (SysError ''ENOENT'')]"
  by code_simp

lemma unsigned_run_events:
  "events (snd (creatApp unsigned_env ''app'' (Str ''t'') (Str ''u'') (start demo_fs))) =
     [EnsureDirSync ''app'' None, ConsoleLog [],
      ConsoleLog [Str ''Creating a new React app in /w/app.''],
      Exec ''git --version'' None (Inr (''git version 2'', [])),
      ConsoleLog [Str ''git version 2''], ConsoleLog [],
      ConsoleLog [Str ''now clone the template in app....''],
      EmptyDirSync ''app'' None, ConsoleLog [],
      ConsoleLog [Str ''Find folder successfully!''],
      ConsoleLog [Str ''u'', Str ''t''],
      Exec ''git clone u'' (Some ''./app'') (Inr ([], [])), ConsoleLog [],
      ConsoleLog [Str ''Downloading success!!!''], ConsoleLog [],
      Stat ''/w/app/t'' (Inr True),
      Exec (reset_command Rm_rf) (Some ''./app/t'') (Inl (SysError ''Please tell me who you are'')),
      ConsoleErrorObj (SysError ''Please tell me who you are'')]"
  by code_simp

section \<open>The claims\<close>

subsection \<open>The installer\<close>

lemma not_started_by_a_file:
  "(\<exists>e. spawn_result env dir f = Not_started e) \<longleftrightarrow> spawn_result env dir f = Not_started (SysError ''ENOTDIR'')"
  "spawn_result env dir f = Not_started (SysError ''ENOTDIR'') \<longleftrightarrow>
     dir \<noteq> [] \<and> list_ex (\<lambda>q. is_file (node_at f q)) (prefixes (resolve_from (cwd env) dir))"
  by (auto simp: spawn_result_def started_def working_dir_def locate_def split: sum.splits if_splits)

text \<open>
  C8. \<open>install\<close> calls \<open>spawn\<close> for \<open>npm install --save --loglevel error\<close> (and the
  dependencies) in \<open>./root\<close>, and nothing else but two lines on the console. In every
  invocation in which \<open>spawn\<close> returns a child, that is, no file is in the way of the
  working directory: the promise rejects exactly when the child closes with a code other than 0
  (a child ended by a signal closes with \<open>null\<close>, which is not 0 either); the value of the
  rejection is the object \<open>{command}\<close> with the command line and nothing else; and with
  close code 0 the promise resolves with no value. A child that cannot be started and emits
  \<open>error\<close> leaves the promise pending, and the process ends. When a file is in the way
  of the working directory, \<open>spawn\<close> throws, no child exists, and the promise rejects
  with what was thrown.
\<close>

theorem install_settles_by_close_code:
  "events (snd (install env root dependencies w)) = events w
      @ Spawn ''npm'' (''install'' # ''--save'' # ''--loglevel'' # ''error'' # dependencies)
          (''./'' @ root) (spawn_result env (''./'' @ root) (fs w))
      # (if list_ex (\<lambda>q. is_file (node_at (fs w) q)) (prefixes (resolve_from (cwd env) (''./'' @ root)))
         then [] else [ConsoleLog [], ConsoleLog [Str ''Install dependencies....'']])
   \<and> fs (snd (install env root dependencies w)) = fs w
   \<and> (\<not> list_ex (\<lambda>q. is_file (node_at (fs w) q)) (prefixes (resolve_from (cwd env) (''./'' @ root))) \<longrightarrow>
        ((\<exists>e. fst (install env root dependencies w) = Threw e) \<longleftrightarrow>
           (\<exists>code. spawn_result env (''./'' @ root) (fs w) = Closed code \<and> code \<noteq> Some 0))
        \<and> (\<forall>e. fst (install env root dependencies w) = Threw e \<longrightarrow>
               e = CommandFailure (join '' '' (''npm'' # ''install'' # ''--save'' # ''--loglevel''
                                               # ''error'' # dependencies)))
        \<and> (fst (install env root dependencies w) = Returned () \<longleftrightarrow>
               spawn_result env (''./'' @ root) (fs w) = Closed (Some 0))
        \<and> (\<forall>e. fst (install env root dependencies w) = Crashed e \<longleftrightarrow>
               spawn_result env (''./'' @ root) (fs w) = Start_failed e))
   \<and> (list_ex (\<lambda>q. is_file (node_at (fs w) q)) (prefixes (resolve_from (cwd env) (''./'' @ root))) \<longrightarrow>
        spawn_result env (''./'' @ root) (fs w) = Not_started (SysError ''ENOTDIR'')
        \<and> fst (install env root dependencies w) = Threw (SysError ''ENOTDIR''))"
proof (cases "list_ex (\<lambda>q. is_file (node_at (fs w) q)) (prefixes (resolve_from (cwd env) (''./'' @ root)))")
  case True
  then have "spawn_result env (''./'' @ root) (fs w) = Not_started (SysError ''ENOTDIR'')"
    by (simp add: not_started_by_a_file(2))
  with True show ?thesis
    by (simp add: install_run events_def)
next
  case False
  then have "\<And>e. spawn_result env (''./'' @ root) (fs w) \<noteq> Not_started e"
    using not_started_by_a_file[of env "''./'' @ root" "fs w"] by auto
  with False show ?thesis
    by (cases "spawn_result env (''./'' @ root) (fs w)") (auto simp: install_run events_def)
qed

theorem install_settles_by_close_code_witness:
  "fst (install demo_env ''app'' [] (start demo_fs)) = Returned ()
   \<and> fst (install (demo_env\<lparr>npm := Inr (Some 1)\<rparr>) ''app'' [] (start demo_fs))
       = Threw (CommandFailure ''npm install --save --loglevel error'')
   \<and> fst (install (demo_env\<lparr>npm := Inr None\<rparr>) ''app'' [] (start demo_fs))
       = Threw (CommandFailure ''npm install --save --loglevel error'')
   \<and> fst (install (demo_env\<lparr>npm := Inl (SysError ''ENOENT'')\<rparr>) ''app'' [] (start demo_fs))
       = Crashed (SysError ''ENOENT'')
   \<and> fst (install demo_env ''app/old'' [] (start demo_fs)) = Threw (SysError ''ENOTDIR'')"
proof -
  have way: "\<not> list_ex (\<lambda>q. is_file (node_at (fs (start demo_fs)) q))
                 (prefixes (resolve_from (cwd (demo_env\<lparr>npm := x\<rparr>)) (''./'' @ ''app'')))" for x
    by (simp add: demo_env_def demo_fs_def resolve_from_def is_absolute_def norm_step_def node_at_def)
  have way0: "\<not> list_ex (\<lambda>q. is_file (node_at (fs (start demo_fs)) q))
                 (prefixes (resolve_from (cwd demo_env) (''./'' @ ''app'')))"
    by (simp add: demo_env_def demo_fs_def resolve_from_def is_absolute_def norm_step_def node_at_def)
  have blocked: "list_ex (\<lambda>q. is_file (node_at (fs (start demo_fs)) q))
                 (prefixes (resolve_from (cwd demo_env) (''./'' @ ''app/old'')))"
    by (simp add: demo_env_def demo_fs_def resolve_from_def is_absolute_def norm_step_def node_at_def)
  have sp: "spawn_result (demo_env\<lparr>npm := x\<rparr>) (''./'' @ ''app'') (fs (start demo_fs))
              = (case x of Inl e \<Rightarrow> Start_failed e | Inr code \<Rightarrow> Closed code)" for x
    by (simp add: spawn_result_def started_def working_dir_def locate_def demo_env_def demo_fs_def resolve_from_def
        is_absolute_def norm_step_def node_at_def)
  have sp0: "spawn_result demo_env (''./'' @ ''app'') (fs (start demo_fs)) = Closed (Some 0)"
    by (simp add: spawn_result_def started_def working_dir_def locate_def demo_env_def demo_fs_def resolve_from_def
        is_absolute_def norm_step_def node_at_def)
  note a = install_settles_by_close_code[of demo_env "''app''" "[]" "start demo_fs",
      THEN conjunct2, THEN conjunct2, THEN conjunct1, rule_format, OF way0]
  note b = install_settles_by_close_code[of "demo_env\<lparr>npm := Inr (Some 1)\<rparr>" "''app''" "[]" "start demo_fs",
      THEN conjunct2, THEN conjunct2, THEN conjunct1, rule_format, OF way]
  note c = install_settles_by_close_code[of "demo_env\<lparr>npm := Inr None\<rparr>" "''app''" "[]" "start demo_fs",
      THEN conjunct2, THEN conjunct2, THEN conjunct1, rule_format, OF way]
  note d = install_settles_by_close_code[of "demo_env\<lparr>npm := Inl (SysError ''ENOENT'')\<rparr>" "''app''" "[]"
      "start demo_fs", THEN conjunct2, THEN conjunct2, THEN conjunct1, rule_format, OF way]
  note e = install_settles_by_close_code[of demo_env "''app/old''" "[]" "start demo_fs",
      THEN conjunct2, THEN conjunct2, THEN conjunct2, rule_format, OF blocked]
  have 1: "fst (install demo_env ''app'' [] (start demo_fs)) = Returned ()"
    using a sp0 by simp
  have 2: "fst (install (demo_env\<lparr>npm := Inr (Some 1)\<rparr>) ''app'' [] (start demo_fs))
       = Threw (CommandFailure ''npm install --save --loglevel error'')"
    using b sp[of "Inr (Some 1)"] by auto
  have 3: "fst (install (demo_env\<lparr>npm := Inr None\<rparr>) ''app'' [] (start demo_fs))
       = Threw (CommandFailure ''npm install --save --loglevel error'')"
    using c sp[of "Inr None"] by auto
  have 4: "fst (install (demo_env\<lparr>npm := Inl (SysError ''ENOENT'')\<rparr>) ''app'' [] (start demo_fs))
       = Crashed (SysError ''ENOENT'')"
    using d sp[of "Inl (SysError ''ENOENT'')"] by simp
  have 5: "fst (install demo_env ''app/old'' [] (start demo_fs)) = Threw (SysError ''ENOTDIR'')"
    using e by simp
  show ?thesis using 1 2 3 4 5 by blast
qed

text \<open>
  In a tree where \<open>app/old\<close> is a file, on a host whose installer would close with 0,
  the promise of \<open>install('app/old')\<close> rejects although no installer has exited with any
  code, and the value it rejects with is not the object \<open>{command}\<close>.
\<close>

theorem install_rejects_without_child_counterexample:
  "npm demo_env = Inr (Some 0)
   \<and> node_at demo_fs [''w'', ''app'', ''old''] = Some (File ''o'')
   \<and> install demo_env ''app/old'' [] (start demo_fs) =
       (Threw (SysError ''ENOTDIR''),
        \<lparr>fs = demo_fs,
         trace = [(Spawn ''npm'' [''install'', ''--save'', ''--loglevel'', ''error''] ''./app/old''
                     (Not_started (SysError ''ENOTDIR'')), demo_fs)]\<rparr>)"
  by code_simp

subsection \<open>The entry points\<close>

text \<open>
  C9. When the positional project directory is missing, both entry points print the
  guidance and the example invocation and end the process with status 0; nothing else
  happens: no prompt, no directory, no later step, and the directory tree is as it was.
\<close>

theorem missing_argument_exits_zero:
  "fst (init_flag env None template w) = Exited 0
   \<and> events (snd (init_flag env None template w)) = events w @
        [ConsoleError ''Please specify the project directory:'',
         ConsoleLog [Str (''  '' @ package_name env @ '' <project-directory>'')],
         ConsoleLog [],
         ConsoleLog [Str ''For example:''],
         ConsoleLog [Str (''  '' @ package_name env @ '' Ceridian-project'')],
         ConsoleLog [],
         ConsoleLog [Str (''Run '' @ package_name env @ '' --help to see all options.'')],
         ProcessExit None]
   \<and> fs (snd (init_flag env None template w)) = fs w
   \<and> fst (init_interactive env None w) = Exited 0
   \<and> events (snd (init_interactive env None w)) = events w @
        [ConsoleError ''Please specify the project directory:'',
         ConsoleLog [Str (''  '' @ package_name env @ '' <project-directory>'')],
         ConsoleLog [],
         ConsoleLog [Str ''For example:''],
         ConsoleLog [Str (''  '' @ package_name env @ '' Custom-react-project'')],
         ConsoleLog [],
         ConsoleLog [Str (''Run '' @ package_name env @ '' --help to see all options.'')],
         ProcessExit None]
   \<and> fs (snd (init_interactive env None w)) = fs w"
  by (simp add: init_flag_def init_interactive_def process_exit_def usage_def events_def)

theorem missing_argument_exits_zero_witness:
  "fst (init_flag demo_env None ''react-starter'' (start demo_fs)) = Exited 0
   \<and> fst (init_interactive demo_env None (start demo_fs)) = Exited 0
   \<and> last (events (snd (init_flag demo_env None ''react-starter'' (start demo_fs)))) = ProcessExit None
   \<and> fs (snd (init_interactive demo_env None (start demo_fs))) = demo_fs"
  using missing_argument_exits_zero[of demo_env "''react-starter''" "start demo_fs"]
  by simp

text \<open>
  C7. For every key of a catalog, the entry point takes the key itself as the template's
  identifier and the catalog's entry as its source location, and hands exactly this pair
  to \<open>creatApp\<close>. The lookup \<open>js_lookup\<close> is a function of the catalog and the key
  alone; between the answer and \<open>creatApp\<close> the world is passed on untouched.
\<close>

theorem catalog_key_resolves:
  "(map_of templateUrls key = Some url \<longrightarrow>
      js_lookup templateUrls key = Str url
      \<and> (select_prompt env = Inr key \<longrightarrow>
           init_interactive env (Some name) w
             = creatApp env name (Str key) (Str url) (emit (Select (Inr key)) w)))
   \<and> (map_of templeUrls key = Some url \<longrightarrow>
      js_lookup templeUrls key = Str url
      \<and> init_flag env (Some name) key w = creatApp env name (Str key) (Str url) w)"
proof -
  have a: "js_lookup templateUrls key = Str url" if "map_of templateUrls key = Some url"
    using that by (simp add: js_lookup_def)
  have b: "key \<noteq> ''custom''" if "map_of templateUrls key = Some url"
    using that by (auto simp: templateUrls_def split: if_splits)
  have c: "init_interactive env (Some name) w
             = creatApp env name (Str key) (Str url) (emit (Select (Inr key)) w)"
    if "map_of templateUrls key = Some url" "select_prompt env = Inr key"
    using that a[OF that(1)] b[OF that(1)]
    by (simp add: init_interactive_def qa_def select_def)
  have d: "js_lookup templeUrls key = Str url" if "map_of templeUrls key = Some url"
    using that by (simp add: js_lookup_def)
  have e: "init_flag env (Some name) key w = creatApp env name (Str key) (Str url) w"
    if "map_of templeUrls key = Some url"
    using d[OF that] by (simp add: init_flag_def)
  show ?thesis using a c d e by blast
qed

theorem catalog_key_resolves_witness:
  "js_lookup templateUrls ''react-frame-application''
     = Str ''https://github.com/zwlzwt/react-frame-application.git''
   \<and> init_interactive (demo_env\<lparr>select_prompt := Inr ''react-frame-application''\<rparr>) (Some ''app'') (start demo_fs)
     = creatApp (demo_env\<lparr>select_prompt := Inr ''react-frame-application''\<rparr>) ''app''
         (Str ''react-frame-application'') (Str ''https://github.com/zwlzwt/react-frame-application.git'')
         (emit (Select (Inr ''react-frame-application'')) (start demo_fs))
   \<and> js_lookup templeUrls ''react-starter'' = Str ''https://github.com/webpack/react-starter.git''
   \<and> init_flag demo_env (Some ''app'') ''react-starter'' (start demo_fs)
     = creatApp demo_env ''app'' (Str ''react-starter'')
         (Str ''https://github.com/webpack/react-starter.git'') (start demo_fs)"
proof -
  have k1: "map_of templateUrls ''react-frame-application''
              = Some ''https://github.com/zwlzwt/react-frame-application.git''"
    by (simp add: templateUrls_def)
  have k2: "map_of templeUrls ''react-starter'' = Some ''https://github.com/webpack/react-starter.git''"
    by (simp add: templeUrls_def)
  have s: "select_prompt (demo_env\<lparr>select_prompt := Inr ''react-frame-application''\<rparr>)
             = Inr ''react-frame-application''"
    by simp
  show ?thesis
    using catalog_key_resolves[of "''react-frame-application''"
        "''https://github.com/zwlzwt/react-frame-application.git''"
        "demo_env\<lparr>select_prompt := Inr ''react-frame-application''\<rparr>" "''app''" "start demo_fs"]
      catalog_key_resolves[of "''react-starter''" "''https://github.com/webpack/react-starter.git''"
        demo_env "''app''" "start demo_fs"]
      k1 k2 s
    by simp
qed

text \<open>
  C5. In the interactive flow, when the user selects the custom template and leaves the
  name or the location blank, the process prints the corrective message and exits with
  status 0: the prompts are the only calls made, and the directory tree is as it was.
  When both answers are given, \<open>creatApp\<close> runs with exactly this name and location.
\<close>

theorem blank_custom_template_exits_zero:
  assumes "select_prompt env = Inr ''custom''"
      and "input_prompt env ''templateName'' = Inr a"
      and "input_prompt env ''templateUrl'' = Inr b"
  shows "(a = [] \<or> b = [] \<longrightarrow>
            fst (init_interactive env (Some name) w) = Exited 0
            \<and> events (snd (init_interactive env (Some name) w)) = events w @
                 [Select (Inr ''custom''), Input ''templateName'' (Inr a),
                  Input ''templateUrl'' (Inr b), ConsoleLog [],
                  ConsoleLog [Str ''You must input your own template!!!''], ConsoleLog [],
                  ProcessExit None]
            \<and> fs (snd (init_interactive env (Some name) w)) = fs w)
       \<and> (a \<noteq> [] \<and> b \<noteq> [] \<longrightarrow>
            init_interactive env (Some name) w
              = creatApp env name (Str a) (Str b)
                  (emit (Input ''templateUrl'' (Inr b))
                     (emit (Input ''templateName'' (Inr a)) (emit (Select (Inr ''custom'')) w))))"
  using assms
  by (simp add: init_interactive_def qa_def select_def input_def process_exit_def events_def)

theorem blank_custom_template_exits_zero_witness:
  "fst (init_interactive (demo_env\<lparr>input_prompt := (\<lambda>q. Inr [])\<rparr>) (Some ''app'') (start demo_fs)) = Exited 0
   \<and> fs (snd (init_interactive (demo_env\<lparr>input_prompt := (\<lambda>q. Inr [])\<rparr>) (Some ''app'') (start demo_fs)))
       = demo_fs
   \<and> init_interactive demo_env (Some ''app'') (start demo_fs)
       = creatApp demo_env ''app'' (Str ''t'') (Str ''u'')
           (emit (Input ''templateUrl'' (Inr ''u''))
              (emit (Input ''templateName'' (Inr ''t'')) (emit (Select (Inr ''custom'')) (start demo_fs))))"
  using blank_custom_template_exits_zero[of "demo_env\<lparr>input_prompt := (\<lambda>q. Inr [])\<rparr>" "[]" "[]" "''app''" "start demo_fs"]
    blank_custom_template_exits_zero[of demo_env "''t''" "''u''" "''app''" "start demo_fs"]
  by (simp add: demo_env_def)

subsection \<open>The workflow\<close>

text \<open>
  C4. When the validator rejects the base name of the resolved path, \<open>creatApp\<close> prints
  the validator's messages in their order (errors, then warnings), one line each, and
  ends the process with status 1 before anything else happens: no directory is ensured
  and the directory tree is as it was. The list of messages is not empty, by the
  validator's contract that an invalid name always comes with a message.
\<close>

theorem invalid_name_is_fatal:
  assumes "\<not> validForNewPackages (validateProjectName env (app_name env name))"
      and "validator_contract (validateProjectName env (app_name env name))"
  shows "fst (creatApp env name tn tu w) = Exited 1
       \<and> violations (validateProjectName env (app_name env name)) \<noteq> []
       \<and> events (snd (creatApp env name tn tu w)) = events w
            @ (if \<not> node_supported env then [ConsoleLog [Str (node_warning (process_version env))]] else [])
            @ [ConsoleError (''Cannot create a project named '' @ dquote @ app_name env name @ dquote
                               @ '' because of npm naming restrictions:'' @ newline)]
            @ map (\<lambda>m. ConsoleError (''  * '' @ m)) (violations (validateProjectName env (app_name env name)))
            @ [ConsoleError (newline @ ''Please choose a different project name.''),
               ProcessExit (Some 1)]
       \<and> fs (snd (creatApp env name tn tu w)) = fs w"
  using assms
  by (simp add: creatApp_invalid validator_contract_def events_def node_note_def refusal_def)

theorem invalid_name_is_fatal_witness:
  "fst (creatApp demo_env ''My App'' (Str ''t'') (Str ''u'') (start demo_fs)) = Exited 1
   \<and> events (snd (creatApp demo_env ''My App'' (Str ''t'') (Str ''u'') (start demo_fs)))
        = [ConsoleError (''Cannot create a project named '' @ dquote @ ''My App'' @ dquote
                               @ '' because of npm naming restrictions:'' @ newline),
           ConsoleError ''  * name can only contain URL-friendly characters'',
           ConsoleError ''  * name can no longer contain capital letters'',
           ConsoleError (newline @ ''Please choose a different project name.''),
           ProcessExit (Some 1)]
   \<and> fs (snd (creatApp demo_env ''My App'' (Str ''t'') (Str ''u'') (start demo_fs))) = demo_fs"
proof -
  have n: "app_name demo_env ''My App'' = ''My App''"
    by (simp add: app_name_def demo_env_def resolve_from_def is_absolute_def norm_step_def basename_def)
  have v: "\<not> validForNewPackages (validateProjectName demo_env (app_name demo_env ''My App''))"
    by (simp add: n) (simp add: demo_env_def)
  have c: "validator_contract (validateProjectName demo_env (app_name demo_env ''My App''))"
    by (simp add: n) (simp add: demo_env_def validator_contract_def violations_def)
  have vs: "violations (validateProjectName demo_env ''My App'')
     = [''name can only contain URL-friendly characters'', ''name can no longer contain capital letters'']"
    by (simp add: demo_env_def violations_def)
  have ns: "node_supported demo_env" by (simp add: demo_env_def)
  show ?thesis
    using invalid_name_is_fatal[OF v c, of "Str ''t''" "Str ''u''" "start demo_fs"] 
    by (simp add: n vs ns)
qed

lemma probe_in_entry:
  assumes "Exec ''git --version'' None (Inr (so, se)) \<in> set (entry_events env name so' se' tn tu @ rest)"
      and "\<forall>x\<in>set rest. x \<noteq> Exec ''git --version'' None (Inr (so, se))"
  shows "so' = so \<and> se' = se"
  using assms by (auto simp: piece_defs split: if_splits)

lemma probe_gates_marker:
  assumes ev: "events w' = entry_events env name so se tn tu @ rest"
      and marker: "success_marker so"
      and clone: "\<exists>r. Exec (clone_command tu) (Some (project_dir name)) r \<in> set rest"
  shows "(se \<noteq> [] \<longrightarrow> ConsoleError se \<in> set (events w'))
       \<and> (success_marker so \<longrightarrow> (\<exists>r. EmptyDirSync name r \<in> set (events w')))
       \<and> (EmptyDirSync name None \<in> set (events w') \<longrightarrow>
            (\<exists>r. Exec (clone_command tu) (Some (project_dir name)) r \<in> set (events w')))
       \<and> ((\<exists>e\<in>set (events w'). is_clone_exec e \<or> is_reset_exec e \<or> is_spawn e) \<longrightarrow> success_marker so)
       \<and> (\<not> success_marker so \<longrightarrow>
            out = Returned ()
            \<and> (\<exists>pre. events w' = pre @ [Exec ''git --version'' None (Inr (so, se))]
                         @ (if se \<noteq> [] then [ConsoleError se] else []))
            \<and> (\<forall>e\<in>set (events w'). \<not> is_exit e \<and> \<not> is_error_report e \<and> \<not> is_clone_exec e
                    \<and> \<not> is_reset_exec e \<and> \<not> is_spawn e))"
proof -
  have 1: "se \<noteq> [] \<longrightarrow> ConsoleError se \<in> set (events w')"
    by (simp add: ev piece_defs)
  have 2: "\<exists>r. EmptyDirSync name r \<in> set (events w')"
    by (auto simp: ev piece_defs)
  have 3: "\<exists>r. Exec (clone_command tu) (Some (project_dir name)) r \<in> set (events w')"
    using clone by (auto simp: ev)
  show ?thesis using 1 2 3 marker by blast
qed

text \<open>
  C1. In every run of \<open>creatApp\<close> in which the probe \<open>git --version\<close> completes with
  standard output \<open>so\<close> and diagnostic output \<open>se\<close>: a non-empty \<open>se\<close> is printed
  to the error stream; when \<open>so\<close> holds the marker \<open>git version\<close> the run goes on to
  empty the directory and, once that is done, to the clone, whatever \<open>se\<close> is; the
  clone, the history reset and the installer are reached only when \<open>so\<close> holds the
  marker; and without the marker the run ends right after the probe (and its warning):
  \<open>creatApp\<close> returns normally, with no exit, no reported error and no further step.
\<close>

theorem probe_gates_the_workflow:
  assumes run: "creatApp env name tn tu (start f) = (out, w')"
      and probe: "Exec ''git --version'' None (Inr (so, se)) \<in> set (events w')"
  shows "(se \<noteq> [] \<longrightarrow> ConsoleError se \<in> set (events w'))
       \<and> (success_marker so \<longrightarrow> (\<exists>r. EmptyDirSync name r \<in> set (events w')))
       \<and> (EmptyDirSync name None \<in> set (events w') \<longrightarrow>
            (\<exists>r. Exec (clone_command tu) (Some (project_dir name)) r \<in> set (events w')))
       \<and> ((\<exists>e\<in>set (events w'). is_clone_exec e \<or> is_reset_exec e \<or> is_spawn e) \<longrightarrow> success_marker so)
       \<and> (\<not> success_marker so \<longrightarrow>
            out = Returned ()
            \<and> (\<exists>pre. events w' = pre @ [Exec ''git --version'' None (Inr (so, se))]
                         @ (if se \<noteq> [] then [ConsoleError se] else []))
            \<and> (\<forall>e\<in>set (events w'). \<not> is_exit e \<and> \<not> is_error_report e \<and> \<not> is_clone_exec e
                    \<and> \<not> is_reset_exec e \<and> \<not> is_spawn e))"
  using run
proof (cases rule: creatApp_events_cases)
  case invalid
  have False using probe unfolding invalid(3) by (auto simp: piece_defs)
  then show ?thesis ..
next
  case (ensure_failed e)
  have False using probe unfolding ensure_failed(2) by (auto simp: piece_defs)
  then show ?thesis ..
next
  case (probe_failed e)
  have False using probe unfolding probe_failed(2) by (auto simp: piece_defs)
  then show ?thesis ..
next
  case (no_marker so' se')
  note w' = no_marker(3)
  from probe have eq: "so' = so" "se' = se" by (auto simp: w' piece_defs split: if_splits)
  have 1: "events w' = (node_note env @ creating env name) @ [Exec ''git --version'' None (Inr (so, se))]
                         @ (if se \<noteq> [] then [ConsoleError se] else [])"
    by (simp add: w' probed_def probe_warning_def eq)
  have 2: "\<forall>e\<in>set (events w'). \<not> is_exit e \<and> \<not> is_error_report e \<and> \<not> is_clone_exec e
                    \<and> \<not> is_reset_exec e \<and> \<not> is_spawn e"
    by (auto simp: w' piece_defs split: if_splits)
  have 3: "EmptyDirSync name None \<notin> set (events w')"
    by (auto simp: w' piece_defs split: if_splits)
  have 4: "se \<noteq> [] \<longrightarrow> ConsoleError se \<in> set (events w')"
    by (simp add: 1)
  show ?thesis using no_marker(1,2) 1 2 3 4 unfolding eq by blast
next
  case (empty_failed so' se' e)
  note w' = empty_failed(3)
  from probe have eq: "so' = so" "se' = se" by (auto simp: w' piece_defs split: if_splits)
  have 1: "se \<noteq> [] \<longrightarrow> ConsoleError se \<in> set (events w')"
    by (simp add: w' eq piece_defs)
  have 2: "\<exists>r. EmptyDirSync name r \<in> set (events w')"
    by (auto simp: w' piece_defs)
  have 3: "EmptyDirSync name None \<notin> set (events w')"
    by (auto simp: w' piece_defs split: if_splits)
  show ?thesis using empty_failed(1) 1 2 3 unfolding eq by blast
next
  case (clone_failed so' se' e)
  note w' = clone_failed(3)
  have eq: "so' = so \<and> se' = se"
    by (rule probe_in_entry[OF probe[unfolded w']]) simp
  show ?thesis
    using clone_failed(1) eq by (intro probe_gates_marker[OF w'[simplified eq]]) auto
next
  case (stat_failed so' se' cl e)
  note w' = stat_failed(3)[simplified]
  have eq: "so' = so \<and> se' = se"
    by (rule probe_in_entry[OF probe[unfolded w']]) (simp add: piece_defs)
  show ?thesis
    using stat_failed(1) eq
    by (intro probe_gates_marker[OF w'[simplified eq]]) (auto simp: cloned_events_def)
next
  case (reset_failed so' se' cl e)
  note w' = reset_failed(3)[simplified]
  have eq: "so' = so \<and> se' = se"
    by (rule probe_in_entry[OF probe[unfolded w']]) (simp add: piece_defs)
  show ?thesis
    using reset_failed(1) eq
    by (intro probe_gates_marker[OF w'[simplified eq]]) (auto simp: cloned_events_def)
next
  case (reset_done so' se' cl rs ch)
  note w' = reset_done(3)[simplified]
  have eq: "so' = so \<and> se' = se"
    by (rule probe_in_entry[OF probe[unfolded w']]) (auto simp: piece_defs split: child.splits)
  show ?thesis
    using reset_done(1) eq
    by (intro probe_gates_marker[OF w'[simplified eq]]) (auto simp: cloned_events_def)
next
  case (reset_skipped so' se' cl ch)
  note w' = reset_skipped(3)[simplified]
  have eq: "so' = so \<and> se' = se"
    by (rule probe_in_entry[OF probe[unfolded w']]) (auto simp: piece_defs split: child.splits)
  show ?thesis
    using reset_skipped(1) eq
    by (intro probe_gates_marker[OF w'[simplified eq]]) (auto simp: cloned_events_def)
qed

theorem probe_gates_the_workflow_witness:
  "ConsoleError ''hint'' \<in> set (events (snd (creatApp demo_env ''app'' (Str ''t'') (Str ''u'') (start demo_fs))))
   \<and> (\<exists>r. Exec ''git clone u'' (Some ''./app'') r
          \<in> set (events (snd (creatApp demo_env ''app'' (Str ''t'') (Str ''u'') (start demo_fs)))))
   \<and> fst (creatApp quiet_env ''app'' (Str ''t'') (Str ''u'') (start demo_fs)) = Returned ()
   \<and> (\<exists>pre. events (snd (creatApp quiet_env ''app'' (Str ''t'') (Str ''u'') (start demo_fs)))
          = pre @ [Exec ''git --version'' None (Inr ([], ''warn'')), ConsoleError ''warn''])"
proof -
  let ?d = "creatApp demo_env ''app'' (Str ''t'') (Str ''u'') (start demo_fs)"
  let ?q = "creatApp quiet_env ''app'' (Str ''t'') (Str ''u'') (start demo_fs)"
  have d1: "?d = (fst ?d, snd ?d)" and q1: "?q = (fst ?q, snd ?q)"
    by simp_all
  have d2: "Exec ''git --version'' None (Inr (''git version 2'', ''hint'')) \<in> set (events (snd ?d))"
    unfolding demo_run_events by simp
  have q2: "Exec ''git --version'' None (Inr ([], ''warn'')) \<in> set (events (snd ?q))"
    unfolding quiet_run by simp
  have d3: "EmptyDirSync ''app'' None \<in> set (events (snd ?d))"
    unfolding demo_run_events by simp
  have q3: "\<not> success_marker []"
    by (simp add: success_marker_def)
  note d = probe_gates_the_workflow[OF d1 d2]
  note q = probe_gates_the_workflow[OF q1 q2]
  have a: "ConsoleError ''hint'' \<in> set (events (snd ?d))"
    using d[THEN conjunct1] by simp
  have b: "\<exists>r. Exec ''git clone u'' (Some ''./app'') r \<in> set (events (snd ?d))"
    using d[THEN conjunct2, THEN conjunct2, THEN conjunct1] d3
    unfolding clone_command_def project_dir_def by simp
  have c: "fst ?q = Returned () \<and> (\<exists>pre. events (snd ?q)
          = pre @ [Exec ''git --version'' None (Inr ([], ''warn'')), ConsoleError ''warn''])"
    using q[THEN conjunct2, THEN conjunct2, THEN conjunct2, THEN conjunct2] q3 by simp
  show ?thesis using a b c by blast
qed

lemma swallowed_early:
  assumes ev: "events w' = es"
      and nofail: "\<forall>x\<in>set es. try_failure x = None"
      and nospawn: "\<forall>x\<in>set es. \<not> is_spawn x"
      and noclone: "\<forall>x\<in>set es. \<not> is_clone_exec x"
  shows "(\<forall>ev e. ev \<in> set (events w') \<and> try_failure ev = Some e \<longrightarrow>
            out = Returned ()
            \<and> (\<exists>pre. events w' = pre @ [ev, ConsoleErrorObj e])
            \<and> (\<forall>x\<in>set (events w'). \<not> is_spawn x \<and> \<not> is_exit x))
       \<and> ((\<exists>x\<in>set (events w'). is_spawn x) \<longleftrightarrow>
            (\<exists>x\<in>set (events w'). is_clone_exec x) \<and> (\<forall>x\<in>set (events w'). try_failure x = None))"
  using nofail nospawn noclone unfolding ev by auto

lemma swallowed_failed:
  assumes ev: "events w' = pre @ [x, ConsoleErrorObj e]"
      and out: "out = Returned ()"
      and fail: "try_failure x = Some e"
      and nofail: "\<forall>x\<in>set pre. try_failure x = None"
      and quiet: "\<forall>x\<in>set pre. \<not> is_spawn x \<and> \<not> is_exit x"
      and x: "\<not> is_spawn x" "\<not> is_exit x"
  shows "(\<forall>ev e. ev \<in> set (events w') \<and> try_failure ev = Some e \<longrightarrow>
            out = Returned ()
            \<and> (\<exists>pre. events w' = pre @ [ev, ConsoleErrorObj e])
            \<and> (\<forall>x\<in>set (events w'). \<not> is_spawn x \<and> \<not> is_exit x))
       \<and> ((\<exists>x\<in>set (events w'). is_spawn x) \<longleftrightarrow>
            (\<exists>x\<in>set (events w'). is_clone_exec x) \<and> (\<forall>x\<in>set (events w'). try_failure x = None))"
proof (intro conjI allI impI)
  fix ev' e'
  assume a: "ev' \<in> set (events w') \<and> try_failure ev' = Some e'"
  then have "ev' = x \<and> e' = e"
    using nofail fail by (auto simp: ev)
  then show "\<exists>pre. events w' = pre @ [ev', ConsoleErrorObj e']"
    using ev by blast
  show "out = Returned ()" by (rule out)
  show "\<forall>y\<in>set (events w'). \<not> is_spawn y \<and> \<not> is_exit y"
    using quiet x by (simp add: ev)
next
  have 1: "\<not> (\<exists>y\<in>set (events w'). is_spawn y)"
    using quiet x by (simp add: ev)
  have 3: "\<not> (\<forall>y\<in>set (events w'). try_failure y = None)"
    using fail by (simp add: ev)
  show "(\<exists>x\<in>set (events w'). is_spawn x) \<longleftrightarrow>
            (\<exists>x\<in>set (events w'). is_clone_exec x) \<and> (\<forall>x\<in>set (events w'). try_failure x = None)"
    using 1 3 by blast
qed

lemma swallowed_installed:
  assumes ev: "events w' = es"
      and nofail: "\<forall>x\<in>set es. try_failure x = None"
      and spawn: "\<exists>x\<in>set es. is_spawn x"
      and clone: "\<exists>x\<in>set es. is_clone_exec x"
  shows "(\<forall>ev e. ev \<in> set (events w') \<and> try_failure ev = Some e \<longrightarrow>
            out = Returned ()
            \<and> (\<exists>pre. events w' = pre @ [ev, ConsoleErrorObj e])
            \<and> (\<forall>x\<in>set (events w'). \<not> is_spawn x \<and> \<not> is_exit x))
       \<and> ((\<exists>x\<in>set (events w'). is_spawn x) \<longleftrightarrow>
            (\<exists>x\<in>set (events w'). is_clone_exec x) \<and> (\<forall>x\<in>set (events w'). try_failure x = None))"
  using nofail spawn clone unfolding ev by auto

text \<open>
  C3. In every run of \<open>creatApp\<close>, when the clone, the \<open>stat\<close> after it or the history
  reset fails, the one handler around them prints the error with \<open>console.error\<close> as the
  last thing the run does, and \<open>creatApp\<close> returns normally: the installer is not
  started and the process is not exited. The installer is started exactly in the runs
  that reach the clone and in which none of the three fails.
\<close>

theorem try_failures_are_swallowed:
  assumes run: "creatApp env name tn tu (start f) = (out, w')"
  shows "(\<forall>ev e. ev \<in> set (events w') \<and> try_failure ev = Some e \<longrightarrow>
            out = Returned ()
            \<and> (\<exists>pre. events w' = pre @ [ev, ConsoleErrorObj e])
            \<and> (\<forall>x\<in>set (events w'). \<not> is_spawn x \<and> \<not> is_exit x))
       \<and> ((\<exists>x\<in>set (events w'). is_spawn x) \<longleftrightarrow>
            (\<exists>x\<in>set (events w'). is_clone_exec x) \<and> (\<forall>x\<in>set (events w'). try_failure x = None))"
  using run
proof (cases rule: creatApp_events_cases)
  case invalid
  show ?thesis by (rule swallowed_early[OF invalid(3)]) (auto simp: piece_defs)
next
  case (ensure_failed e)
  show ?thesis by (rule swallowed_early[OF ensure_failed(2)]) (auto simp: piece_defs)
next
  case (probe_failed e)
  show ?thesis by (rule swallowed_early[OF probe_failed(2)]) (auto simp: piece_defs)
next
  case (no_marker so se)
  show ?thesis by (rule swallowed_early[OF no_marker(3)]) (auto simp: piece_defs)
next
  case (empty_failed so se e)
  show ?thesis by (rule swallowed_early[OF empty_failed(3)]) (auto simp: piece_defs)
next
  case (clone_failed so se e)
  show ?thesis
    by (rule swallowed_failed[OF clone_failed(3) clone_failed(2)]) (auto simp: piece_defs)
next
  case (stat_failed so se cl e)
  show ?thesis
    by (rule swallowed_failed[OF stat_failed(3) stat_failed(2)]) (auto simp: piece_defs)
next
  case (reset_failed so se cl e)
  show ?thesis
    by (rule swallowed_failed[OF reset_failed(3) reset_failed(2)]) (auto simp: piece_defs)
next
  case (reset_done so se cl rs ch)
  show ?thesis
    by (rule swallowed_installed[OF reset_done(3)]) (auto simp: piece_defs split: child.splits)
next
  case (reset_skipped so se cl ch)
  show ?thesis
    by (rule swallowed_installed[OF reset_skipped(3)]) (auto simp: piece_defs split: child.splits)
qed

theorem try_failures_are_swallowed_witness:
  "fst (creatApp offline_env ''app'' (Str ''t'') (Str ''u'') (start demo_fs)) = Returned ()
   \<and> (\<exists>pre. events (snd (creatApp offline_env ''app'' (Str ''t'') (Str ''u'') (start demo_fs)))
          = pre @ [Exec ''git clone u'' (Some ''./app'') (Inl (SysError ''fatal: unable to access'')),
                   ConsoleErrorObj (SysError ''fatal: unable to access'')])
   \<and> \<not> (\<exists>x\<in>set (events (snd (creatApp offline_env ''app'' (Str ''t'') (Str ''u'') (start demo_fs)))).
           is_spawn x)
   \<and> fst (creatApp unsigned_env ''app'' (Str ''t'') (Str ''u'') (start demo_fs)) = Returned ()
   \<and> (\<exists>pre. events (snd (creatApp unsigned_env ''app'' (Str ''t'') (Str ''u'') (start demo_fs)))
          = pre @ [Exec (reset_command Rm_rf) (Some ''./app/t'') (Inl (SysError ''Please tell me who you are'')),
                   ConsoleErrorObj (SysError ''Please tell me who you are'')])
   \<and> \<not> (\<exists>x\<in>set (events (snd (creatApp unsigned_env ''app'' (Str ''t'') (Str ''u'') (start demo_fs)))).
           is_spawn x)
   \<and> (\<exists>x\<in>set (events (snd (creatApp demo_env ''app'' (Str ''t'') (Str ''u'') (start demo_fs)))).
           is_spawn x)"
proof -
  let ?o = "creatApp offline_env ''app'' (Str ''t'') (Str ''u'') (start demo_fs)"
  let ?u = "creatApp unsigned_env ''app'' (Str ''t'') (Str ''u'') (start demo_fs)"
  let ?d = "creatApp demo_env ''app'' (Str ''t'') (Str ''u'') (start demo_fs)"
  let ?ev = "Exec ''git clone u'' (Some ''./app'') (Inl (SysError ''fatal: unable to access''))"
  let ?rv = "Exec (reset_command Rm_rf) (Some ''./app/t'') (Inl (SysError ''Please tell me who you are''))"
  have o1: "?o = (fst ?o, snd ?o)" and u1: "?u = (fst ?u, snd ?u)" and d1: "?d = (fst ?d, snd ?d)"
    by simp_all
  have o2: "?ev \<in> set (events (snd ?o)) \<and> try_failure ?ev = Some (SysError ''fatal: unable to access'')"
    unfolding offline_run_events by (simp add: is_clone_command_def)
  have u2: "?rv \<in> set (events (snd ?u)) \<and> try_failure ?rv = Some (SysError ''Please tell me who you are'')"
    unfolding unsigned_run_events by simp
  have d2: "\<exists>x\<in>set (events (snd ?d)). is_clone_exec x"
    unfolding demo_run_events by (simp add: is_clone_command_def)
  have d3: "\<forall>x\<in>set (events (snd ?d)). try_failure x = None"
    unfolding demo_run_events by (simp add: is_clone_command_def)
  note o = try_failures_are_swallowed[OF o1, THEN conjunct1, rule_format, OF o2]
  note u = try_failures_are_swallowed[OF u1, THEN conjunct1, rule_format, OF u2]
  note d = try_failures_are_swallowed[OF d1, THEN conjunct2]
  have a: "\<exists>x\<in>set (events (snd ?d)). is_spawn x"
    using d d2 d3 by blast
  have b: "fst ?o = Returned ()
      \<and> (\<exists>pre. events (snd ?o) = pre @ [?ev, ConsoleErrorObj (SysError ''fatal: unable to access'')])
      \<and> \<not> (\<exists>x\<in>set (events (snd ?o)). is_spawn x)"
    using o by blast
  have c: "fst ?u = Returned ()
      \<and> (\<exists>pre. events (snd ?u) = pre @ [?rv, ConsoleErrorObj (SysError ''Please tell me who you are'')])
      \<and> \<not> (\<exists>x\<in>set (events (snd ?u)). is_spawn x)"
    using u by blast
  show ?thesis using a b c by blast
qed

lemma creatApp_clone_exec:
  assumes run: "creatApp env name tn tu (start f) = (out, w')"
  shows "(\<forall>c d r. Exec c d r \<in> set (events w') \<and> is_clone_command c \<longrightarrow>
            c = clone_command tu \<and> d = Some (project_dir name))
       \<and> (EmptyDirSync name None \<in> set (events w') \<longrightarrow>
            (\<exists>r. Exec (clone_command tu) (Some (project_dir name)) r \<in> set (events w')))"
  using run
proof (cases rule: creatApp_events_cases)
  case invalid
  show ?thesis unfolding invalid(3) by (auto simp: piece_defs)
next
  case (ensure_failed e)
  show ?thesis unfolding ensure_failed(2) by (auto simp: piece_defs)
next
  case (probe_failed e)
  show ?thesis unfolding probe_failed(2) by (auto simp: piece_defs)
next
  case (no_marker so se)
  show ?thesis unfolding no_marker(3) by (auto simp: piece_defs split: if_splits)
next
  case (empty_failed so se e)
  show ?thesis unfolding empty_failed(3) by (auto simp: piece_defs split: if_splits)
next
  case (clone_failed so se e)
  show ?thesis unfolding clone_failed(3) by (auto simp: piece_defs split: if_splits)
next
  case (stat_failed so se cl e)
  show ?thesis unfolding stat_failed(3) by (auto simp: piece_defs split: if_splits)
next
  case (reset_failed so se cl e)
  show ?thesis unfolding reset_failed(3) by (auto simp: piece_defs split: if_splits)
next
  case (reset_done so se cl rs ch)
  show ?thesis unfolding reset_done(3)
    by (auto simp: piece_defs split: if_splits child.splits)
next
  case (reset_skipped so se cl ch)
  show ?thesis unfolding reset_skipped(3)
    by (auto simp: piece_defs split: if_splits child.splits)
qed

text \<open>
  C10. In the flag-based variant the value of \<open>--template\<close> is looked up in the catalog
  without any check. For every value that is neither a key of the catalog nor the name of
  a member inherited from \<open>Object.prototype\<close>, the lookup gives \<open>undefined\<close>, no error
  is raised, \<open>creatApp\<close> runs with the undefined location, and every clone the run
  attempts (it attempts one as soon as the directory is emptied) is the command
  \<open>git clone undefined\<close> in the project directory.
\<close>

theorem unknown_template_clones_undefined:
  assumes nokey: "template \<notin> set (map fst templeUrls)"
      and noproto: "template \<notin> set object_prototype_keys"
      and run: "init_flag env (Some name) template (start f) = (out, w')"
  shows "js_lookup templeUrls template = Undefined
       \<and> creatApp env name (Str template) Undefined (start f) = (out, w')
       \<and> (\<forall>c d r. Exec c d r \<in> set (events w') \<and> is_clone_command c \<longrightarrow>
             c = ''git clone undefined'' \<and> d = Some (''./'' @ name))
       \<and> (EmptyDirSync name None \<in> set (events w') \<longrightarrow>
             (\<exists>r. Exec ''git clone undefined'' (Some (''./'' @ name)) r \<in> set (events w')))"
proof -
  have "map_of templeUrls template = None"
    using nokey by (simp add: map_of_eq_None_iff)
  then have 1: "js_lookup templeUrls template = Undefined"
    using noproto by (simp add: js_lookup_def)
  have 2: "creatApp env name (Str template) Undefined (start f) = (out, w')"
    using run 1 by (simp add: init_flag_def)
  show ?thesis
    using 1 2 creatApp_clone_exec[OF 2]
    by (simp add: clone_command_def project_dir_def)
qed

theorem unknown_template_clones_undefined_witness:
  "js_lookup templeUrls ''nothing'' = Undefined
   \<and> (\<exists>r. Exec ''git clone undefined'' (Some (''./'' @ ''app'')) r
          \<in> set (events (snd (init_flag demo_env (Some ''app'') ''nothing'' (start demo_fs)))))"
proof -
  let ?n = "init_flag demo_env (Some ''app'') ''nothing'' (start demo_fs)"
  have n1: "?n = (fst ?n, snd ?n)"
    by simp
  have k: "''nothing'' \<notin> set (map fst templeUrls)" and q: "''nothing'' \<notin> set object_prototype_keys"
    by (simp_all add: templeUrls_def object_prototype_keys_def)
  have e: "EmptyDirSync ''app'' None \<in> set (events (snd ?n))"
    unfolding nothing_run_events by simp
  show ?thesis
    using unknown_template_clones_undefined[OF k q n1] e by blast
qed

text \<open>
  The value \<open>constructor\<close> is not a key of the catalog, but the lookup does not give
  \<open>undefined\<close>: it gives the member inherited from \<open>Object.prototype\<close>, and the clone
  command carries its text.
\<close>

theorem inherited_template_key_counterexample:
  "''constructor'' \<notin> set (map fst templeUrls)
   \<and> js_lookup templeUrls ''constructor'' = Inherited ''constructor''
   \<and> js_lookup templeUrls ''constructor'' \<noteq> Undefined
   \<and> events (snd (init_flag demo_env (Some ''app'') ''constructor'' (start demo_fs))) =
       [EnsureDirSync ''app'' None, ConsoleLog [],
        ConsoleLog [Str ''Creating a new React app in /w/app.''],
        Exec ''git --version'' None (Inr (''git version 2'', ''hint'')),
        ConsoleError ''hint'', ConsoleLog [Str ''git version 2''], ConsoleLog [],
        ConsoleLog [Str ''now clone the template in app....''],
        EmptyDirSync ''app'' None, ConsoleLog [],
        ConsoleLog [Str ''Find folder successfully!''],
        ConsoleLog [Inherited ''constructor'', Str ''constructor''],
        Exec ''git clone function Object() { [native code] }'' (Some ''./app'') (Inr ([], [])),
        ConsoleLog [], ConsoleLog [Str ''Downloading success!!!''], ConsoleLog [],
        Stat ''/w/app/constructor'' (Inl (SysError ''ENOENT'')),
        ConsoleErrorObj (SysError ''ENOENT'')]"
  by code_simp

subsection \<open>The directory tree\<close>




lemma map_of_filter_keys:
  "map_of (filter (\<lambda>(q, n). P q) f) k = (if P k then map_of f k else None)"
  by (induction f) auto






















subsection \<open>The history reset\<close>






lemma map_of_put: "map_of (put f p n) q = (if q = p then Some n else map_of f q)"
  using map_of_filter_keys[of "\<lambda>q. q \<noteq> p" f q] by (simp add: put_def)



lemma repository_at_put [simp]: "repository_at (put f (metadata d) (Git r)) d = Some r"
  by (simp add: repository_at_def node_at_def map_of_put metadata_def)





















end
